theory Spec2Isabelle
  imports Main "HOL-Library.Sublist"
begin

section \<open>JavaScript values that travel through the client\<close>

text \<open>
  The portal's front end is two files: the API client (\<^verbatim>\<open>api/client.js\<close>) and the
  view layer (\<^verbatim>\<open>App.js\<close>). Response bodies are JSON; everything the client reads out
  of them is an untyped JavaScript value. A \<open>json\<close> is such a value; \<open>JObj\<close> lists
  the object's own properties in enumeration order, each key once. The client never
  computes with a number: it only prints one or tests it for truth. So a number is
  kept as the text that JavaScript's own number-to-string conversion gives for it:
  \<^verbatim>\<open>50\<close>, \<^verbatim>\<open>-3\<close>, \<^verbatim>\<open>0.5\<close>, \<^verbatim>\<open>1e+21\<close>, and \<^verbatim>\<open>0\<close> for both zeros. A character is
  a byte of the UTF-8 text. A \<open>jsval\<close> adds \<^verbatim>\<open>undefined\<close>, written \<open>None\<close>: an
  omitted argument or a missing property.
\<close>

datatype json =
    JNull
  | JBool bool
  | JNum string
  | JStr string
  | JArr "json list"
  | JObj "(string \<times> json) list"

type_synonym jsval = "json option"

text \<open>
  Truthiness, as \<^verbatim>\<open>if (x)\<close>, \<^verbatim>\<open>x || y\<close> and \<^verbatim>\<open>!x\<close> test it. The falsy numbers are
  zero and NaN.
\<close>

fun truthy :: "json \<Rightarrow> bool" where
  "truthy JNull = False"
| "truthy (JBool b) = b"
| "truthy (JNum n) = (n \<noteq> ''0'' \<and> n \<noteq> ''NaN'')"
| "truthy (JStr s) = (s \<noteq> [])"
| "truthy (JArr xs) = True"
| "truthy (JObj kvs) = True"

fun truthy_val :: "jsval \<Rightarrow> bool" where
  "truthy_val None = False"
| "truthy_val (Some v) = truthy v"

text \<open>\<^verbatim>\<open>typeof x === 'object'\<close> for a truthy value: objects and arrays.\<close>

fun is_object :: "json \<Rightarrow> bool" where
  "is_object (JArr xs) = True"
| "is_object (JObj kvs) = True"
| "is_object v = False"

text \<open>
  Property read \<^verbatim>\<open>x.key\<close> on a value that is neither null nor undefined, for the
  keys the client reads (\<^verbatim>\<open>detail\<close>, \<^verbatim>\<open>access_token\<close>, \<^verbatim>\<open>roles\<close>, \<^verbatim>\<open>id\<close>): an
  object has the property or not, and no array, string, number or boolean has one of
  these.
\<close>

fun get_prop :: "json \<Rightarrow> string \<Rightarrow> jsval" where
  "get_prop (JObj kvs) k = map_of kvs k"
| "get_prop v k = None"

subsection \<open>Numbers and values as text\<close>

text \<open>
  The one number the client prints that does not come out of a body is the status
  code of a response, an unsigned short: \<open>show_nat\<close> gives its decimal digits.
\<close>

definition digit_char :: "nat \<Rightarrow> char" where
  "digit_char d = ''0123456789'' ! (d mod 10)"

function show_nat :: "nat \<Rightarrow> string" where
  "show_nat n = (if n < 10 then [digit_char n] else show_nat (n div 10) @ [digit_char (n mod 10)])"
  by pat_completeness auto
termination
  by (relation "measure id") auto

declare show_nat.simps [simp del]

fun join_with :: "string \<Rightarrow> string list \<Rightarrow> string" where
  "join_with sep [] = []"
| "join_with sep [x] = x"
| "join_with sep (x # y # ys) = x @ sep @ join_with sep (y # ys)"

text \<open>
  \<^verbatim>\<open>String(x)\<close> and \<^verbatim>\<open>`${x}`\<close>: an array joins its elements with commas, a null
  element printing as nothing; an object prints as \<^verbatim>\<open>[object Object]\<close>.
\<close>

fun String_js :: "json \<Rightarrow> string" where
  "String_js JNull = ''null''"
| "String_js (JBool b) = (if b then ''true'' else ''false'')"
| "String_js (JNum n) = n"
| "String_js (JStr s) = s"
| "String_js (JArr xs) =
     join_with '','' (map (\<lambda>x. if x = JNull then [] else String_js x) xs)"
| "String_js (JObj kvs) = ''[object Object]''"

fun String_val :: "jsval \<Rightarrow> string" where
  "String_val None = ''undefined''"
| "String_val (Some v) = String_js v"

text \<open>
  \<^verbatim>\<open>JSON.stringify\<close>: a string is quoted, with the quote, the backslash and the control
  characters escaped; a number that is not finite prints as \<^verbatim>\<open>null\<close>.
\<close>

definition hex_lower :: "nat \<Rightarrow> char" where
  "hex_lower d = ''0123456789abcdef'' ! (d mod 16)"

definition escape_char :: "char \<Rightarrow> string" where
  "escape_char c =
     (let n = (of_char c :: nat) in
      if n = 0x22 then [CHR 0x5C, CHR 0x22]
      else if n = 0x5C then [CHR 0x5C, CHR 0x5C]
      else if n = 0x08 then [CHR 0x5C, CHR ''b'']
      else if n = 0x0C then [CHR 0x5C, CHR ''f'']
      else if n = 0x0A then [CHR 0x5C, CHR ''n'']
      else if n = 0x0D then [CHR 0x5C, CHR ''r'']
      else if n = 0x09 then [CHR 0x5C, CHR ''t'']
      else if n < 0x20 then [CHR 0x5C, CHR ''u'', CHR ''0'', CHR ''0'', hex_lower (n div 16), hex_lower (n mod 16)]
      else [c])"

definition quote :: "string \<Rightarrow> string" where
  "quote s = CHR 0x22 # concat (map escape_char s) @ [CHR 0x22]"

fun JSON_stringify :: "json \<Rightarrow> string" where
  "JSON_stringify JNull = ''null''"
| "JSON_stringify (JBool b) = (if b then ''true'' else ''false'')"
| "JSON_stringify (JNum n) =
     (if n = ''Infinity'' \<or> n = ''-Infinity'' \<or> n = ''NaN'' then ''null'' else n)"
| "JSON_stringify (JStr s) = quote s"
| "JSON_stringify (JArr xs) = ''['' @ join_with '','' (map JSON_stringify xs) @ '']''"
| "JSON_stringify (JObj kvs) =
     ''{'' @ join_with '','' (map (\<lambda>kv. quote (fst kv) @ '':'' @ JSON_stringify (snd kv)) kvs) @ ''}''"

text \<open>
  An object literal \<^verbatim>\<open>{ a, b }\<close> whose values may be undefined, as \<^verbatim>\<open>JSON.stringify\<close>
  sees it: a property holding \<^verbatim>\<open>undefined\<close> is left out.
\<close>

definition object_literal :: "(string \<times> jsval) list \<Rightarrow> json" where
  "object_literal fields = JObj (concat (map (\<lambda>(k, v). case v of None \<Rightarrow> [] | Some j \<Rightarrow> [(k, j)]) fields))"

subsection \<open>Exceptions and results\<close>

text \<open>
  What a \<^verbatim>\<open>throw\<close> or a rejected promise carries: the error's class and its
  \<^verbatim>\<open>message\<close>. An awaited call either returns or throws.
\<close>

datatype js_error = Error string | SyntaxError string | TypeError string

fun message :: "js_error \<Rightarrow> string" where
  "message (Error m) = m"
| "message (SyntaxError m) = m"
| "message (TypeError m) = m"

datatype 'a outcome = Return 'a | Throw js_error

section \<open>The API client\<close>

subsection \<open>normalizeBase\<close>

text \<open>
  \<^verbatim>\<open>(apiBase || '').replace(/\/$/, '')\<close>. The base is a string, or \<open>None\<close> for null and
  undefined. The pattern has no flag, so it matches one slash at the very end of the
  input and nothing else.
\<close>

definition normalizeBase :: "string option \<Rightarrow> string" where
  "normalizeBase apiBase =
     (let s = (case apiBase of None \<Rightarrow> [] | Some b \<Rightarrow> b) in
      if s \<noteq> [] \<and> last s = CHR ''/'' then butlast s else s)"

subsection \<open>Responses and parseJsonOrText\<close>

text \<open>
  What \<^verbatim>\<open>fetch\<close> resolves to. \<open>content_type\<close> is \<^verbatim>\<open>resp.headers.get('content-type')\<close>
  (\<open>None\<close> when the header is absent), \<open>body_text\<close> the body as text, and \<open>parsed\<close> what
  the platform's JSON parser makes of that text: \<open>Inr\<close> the value, or \<open>Inl m\<close> when it
  throws a SyntaxError with message \<open>m\<close>. Both \<^verbatim>\<open>resp.json()\<close> and \<^verbatim>\<open>JSON.parse(text)\<close>
  run that parser.
\<close>

record response =
  status :: nat
  content_type :: "string option"
  body_text :: string
  parsed :: "string + json"

definition ok :: "response \<Rightarrow> bool" where
  "ok resp = (200 \<le> status resp \<and> status resp \<le> 299)"

definition parseJsonOrText :: "response \<Rightarrow> json outcome" where
  "parseJsonOrText resp =
     (let contentType = (case content_type resp of None \<Rightarrow> [] | Some c \<Rightarrow> c) in
      if sublist ''application/json'' contentType then
        (case parsed resp of Inl m \<Rightarrow> Throw (SyntaxError m) | Inr j \<Rightarrow> Return j)
      else
        (case parsed resp of Inl m \<Rightarrow> Return (JStr (body_text resp)) | Inr j \<Rightarrow> Return j))"

subsection \<open>errorFromResponse\<close>

definition errorFromResponse :: "nat \<Rightarrow> json \<Rightarrow> js_error" where
  "errorFromResponse st data =
     (if truthy data \<and> is_object data then
        (let detail = (case get_prop data ''detail'' of None \<Rightarrow> data | Some JNull \<Rightarrow> data | Some d \<Rightarrow> d) in
         case detail of
           JStr s \<Rightarrow> Error s
         | _ \<Rightarrow> Error (show_nat st @ '': '' @ JSON_stringify detail))
      else Error (show_nat st @ '': '' @ String_js data))"

subsection \<open>request\<close>

text \<open>
  The argument of \<^verbatim>\<open>fetch\<close>: the URL and the init object. \<open>request_init\<close> is the first
  half of \<^verbatim>\<open>request\<close> (lines 34 to 44), what it hands to \<^verbatim>\<open>fetch\<close>;
  \<open>request_finish\<close> is the second half (lines 46 to 48), what it does with the answer.
  \<^verbatim>\<open>fetch\<close> itself is a parameter: the network's answer to a request, a response or a
  rejection. The destructured \<^verbatim>\<open>method = 'GET'\<close> takes its default when the caller
  passes none.
\<close>

record fetch_init =
  url :: string
  http_method :: string
  headers :: "(string \<times> string) list"
  body :: "string option"

type_synonym fetch = "fetch_init \<Rightarrow> response outcome"

definition request_init :: "string option \<Rightarrow> string \<Rightarrow> string option \<Rightarrow> jsval \<Rightarrow> jsval \<Rightarrow> fetch_init" where
  "request_init apiBase pth meth tok bdy =
     \<lparr> url = normalizeBase apiBase @ pth,
       http_method = (case meth of None \<Rightarrow> ''GET'' | Some m \<Rightarrow> m),
       headers = [(''Content-Type'', ''application/json'')]
                 @ (if truthy_val tok then [(''Authorization'', ''Bearer '' @ String_val tok)] else []),
       body = (case bdy of None \<Rightarrow> None
               | Some b \<Rightarrow> if truthy b then Some (JSON_stringify b) else None) \<rparr>"

definition request_finish :: "response outcome \<Rightarrow> json outcome" where
  "request_finish answer =
     (case answer of
        Throw e \<Rightarrow> Throw e
      | Return resp \<Rightarrow>
          (case parseJsonOrText resp of
             Throw e \<Rightarrow> Throw e
           | Return data \<Rightarrow>
               if \<not> ok resp then Throw (errorFromResponse (status resp) data)
               else Return data))"

definition request :: "fetch \<Rightarrow> string option \<Rightarrow> string \<Rightarrow> string option \<Rightarrow> jsval \<Rightarrow> jsval \<Rightarrow> json outcome" where
  "request fetch apiBase pth meth tok bdy =
     request_finish (fetch (request_init apiBase pth meth tok bdy))"

subsection \<open>The nine operations\<close>

text \<open>
  Each takes the base and its own parameters, any of which the caller may leave
  undefined, and calls \<open>request\<close>. Register and login pass no token.
\<close>

definition apiRegister :: "fetch \<Rightarrow> string option \<Rightarrow> jsval \<Rightarrow> jsval \<Rightarrow> jsval \<Rightarrow> jsval \<Rightarrow> json outcome" where
  "apiRegister fetch apiBase email password first_name last_name =
     request fetch apiBase ''/auth/register'' (Some ''POST'') None
       (Some (object_literal [(''email'', email), (''password'', password),
                              (''first_name'', first_name), (''last_name'', last_name)]))"

definition apiLogin :: "fetch \<Rightarrow> string option \<Rightarrow> jsval \<Rightarrow> jsval \<Rightarrow> json outcome" where
  "apiLogin fetch apiBase email password =
     request fetch apiBase ''/auth/login'' (Some ''POST'') None
       (Some (object_literal [(''email'', email), (''password'', password)]))"

definition apiMe :: "fetch \<Rightarrow> string option \<Rightarrow> jsval \<Rightarrow> json outcome" where
  "apiMe fetch apiBase tok = request fetch apiBase ''/auth/me'' (Some ''GET'') tok None"

definition apiListMyApplications :: "fetch \<Rightarrow> string option \<Rightarrow> jsval \<Rightarrow> json outcome" where
  "apiListMyApplications fetch apiBase tok =
     request fetch apiBase ''/applications/my'' (Some ''GET'') tok None"

definition apiCreateApplication :: "fetch \<Rightarrow> string option \<Rightarrow> jsval \<Rightarrow> jsval \<Rightarrow> jsval \<Rightarrow> json outcome" where
  "apiCreateApplication fetch apiBase tok program term =
     request fetch apiBase ''/applications'' (Some ''POST'') tok
       (Some (object_literal [(''program'', program), (''term'', term)]))"

definition apiSubmitApplication :: "fetch \<Rightarrow> string option \<Rightarrow> jsval \<Rightarrow> jsval \<Rightarrow> json outcome" where
  "apiSubmitApplication fetch apiBase tok applicationId =
     request fetch apiBase (''/applications/'' @ String_val applicationId @ ''/submit'')
       (Some ''POST'') tok None"

definition apiWithdrawApplication :: "fetch \<Rightarrow> string option \<Rightarrow> jsval \<Rightarrow> jsval \<Rightarrow> json outcome" where
  "apiWithdrawApplication fetch apiBase tok applicationId =
     request fetch apiBase (''/applications/'' @ String_val applicationId @ ''/withdraw'')
       (Some ''POST'') tok None"

text \<open>
  \<^verbatim>\<open>URLSearchParams\<close>: an ordered list of name and value. \<^verbatim>\<open>set\<close> overwrites the first
  entry of that name and drops the others, or appends; \<^verbatim>\<open>toString\<close> is the
  form-urlencoded serialisation (a space becomes \<^verbatim>\<open>+\<close>, a byte outside the letters,
  the digits and \<^verbatim>\<open>*-._\<close> becomes \<^verbatim>\<open>%XX\<close>).
\<close>

type_synonym search_params = "(string \<times> string) list"

fun params_set :: "string \<Rightarrow> string \<Rightarrow> search_params \<Rightarrow> search_params" where
  "params_set n v [] = [(n, v)]"
| "params_set n v ((k, x) # ps) =
     (if k = n then (n, v) # filter (\<lambda>p. fst p \<noteq> n) ps else (k, x) # params_set n v ps)"

definition hex_upper :: "nat \<Rightarrow> char" where
  "hex_upper d = ''0123456789ABCDEF'' ! (d mod 16)"

definition form_byte :: "char \<Rightarrow> string" where
  "form_byte c =
     (let n = (of_char c :: nat) in
      if n = 0x20 then ''+''
      else if (0x30 \<le> n \<and> n \<le> 0x39) \<or> (0x41 \<le> n \<and> n \<le> 0x5A) \<or> (0x61 \<le> n \<and> n \<le> 0x7A)
              \<or> n = 0x2A \<or> n = 0x2D \<or> n = 0x2E \<or> n = 0x5F then [c]
      else [CHR ''%'', hex_upper (n div 16), hex_upper (n mod 16)])"

definition form_encode :: "string \<Rightarrow> string" where
  "form_encode s = concat (map form_byte s)"

definition params_toString :: "search_params \<Rightarrow> string" where
  "params_toString ps = join_with ''&'' (map (\<lambda>p. form_encode (fst p) @ ''='' @ form_encode (snd p)) ps)"

text \<open>
  The other end of the wire: how a server reads a query string. It splits the
  string at every \<^verbatim>\<open>&\<close>, drops empty pieces, splits each piece at its first \<^verbatim>\<open>=\<close>
  into name and value, and decodes both (\<^verbatim>\<open>+\<close> is a space, \<^verbatim>\<open>%XX\<close> the byte with
  that hexadecimal code). The parameters that a query string contains are the ones
  this reading finds in it.
\<close>

fun split_on :: "char \<Rightarrow> string \<Rightarrow> string list" where
  "split_on c [] = [[]]"
| "split_on c (x # xs) =
     (if x = c then [] # split_on c xs
      else (case split_on c xs of [] \<Rightarrow> [[x]] | y # ys \<Rightarrow> (x # y) # ys))"

definition is_hex :: "char \<Rightarrow> bool" where
  "is_hex c =
     (let n = (of_char c :: nat) in
      (0x30 \<le> n \<and> n \<le> 0x39) \<or> (0x41 \<le> n \<and> n \<le> 0x46) \<or> (0x61 \<le> n \<and> n \<le> 0x66))"

definition hex_val :: "char \<Rightarrow> nat" where
  "hex_val c =
     (let n = (of_char c :: nat) in
      if n \<le> 0x39 then n - 0x30 else if n \<le> 0x46 then n - 0x41 + 10 else n - 0x61 + 10)"

fun form_decode :: "string \<Rightarrow> string" where
  "form_decode [] = []"
| "form_decode (c # cs) =
     (if c = CHR ''+'' then CHR '' '' # form_decode cs
      else if c = CHR ''%'' \<and> 2 \<le> length cs \<and> is_hex (cs ! 0) \<and> is_hex (cs ! 1)
      then char_of (16 * hex_val (cs ! 0) + hex_val (cs ! 1)) # form_decode (drop 2 cs)
      else c # form_decode cs)"

definition parse_query :: "string \<Rightarrow> (string \<times> string) list" where
  "parse_query qs =
     map (\<lambda>seg. (form_decode (takeWhile (\<lambda>x. x \<noteq> CHR ''='') seg),
                 form_decode (drop 1 (dropWhile (\<lambda>x. x \<noteq> CHR ''='') seg))))
         (filter (\<lambda>seg. seg \<noteq> []) (split_on CHR ''&'' qs))"

text \<open>
  Lines 132 to 136 of \<^verbatim>\<open>apiAdminListApplications\<close>: the parameters it collects. The
  defaults \<^verbatim>\<open>limit = 50\<close> and \<^verbatim>\<open>offset = 0\<close> stand in for an undefined argument only.
\<close>

definition admin_list_params :: "jsval \<Rightarrow> jsval \<Rightarrow> jsval \<Rightarrow> jsval \<Rightarrow> search_params" where
  "admin_list_params stat q lim off =
     (let limit = (case lim of None \<Rightarrow> Some (JNum ''50'') | Some v \<Rightarrow> Some v);
          offset = (case off of None \<Rightarrow> Some (JNum ''0'') | Some v \<Rightarrow> Some v);
          p0 = [];
          p1 = (if truthy_val stat then params_set ''status'' (String_val stat) p0 else p0);
          p2 = (if truthy_val q then params_set ''q'' (String_val q) p1 else p1);
          p3 = params_set ''limit'' (String_val limit) p2
      in params_set ''offset'' (String_val offset) p3)"

definition apiAdminListApplications :: "fetch \<Rightarrow> string option \<Rightarrow> jsval \<Rightarrow> jsval \<Rightarrow> jsval \<Rightarrow> jsval \<Rightarrow> jsval \<Rightarrow> json outcome" where
  "apiAdminListApplications fetch apiBase tok stat q lim off =
     request fetch apiBase
       (''/admin/applications?'' @ params_toString (admin_list_params stat q lim off))
       (Some ''GET'') tok None"

definition apiAdminChangeStatus :: "fetch \<Rightarrow> string option \<Rightarrow> jsval \<Rightarrow> jsval \<Rightarrow> jsval \<Rightarrow> jsval \<Rightarrow> json outcome" where
  "apiAdminChangeStatus fetch apiBase tok applicationId to_status reason =
     request fetch apiBase (''/admin/applications/'' @ String_val applicationId @ ''/status'')
       (Some ''POST'') tok
       (Some (object_literal [(''to_status'', to_status), (''reason'', reason)]))"

text \<open>
  The nine operations as one type, so that a statement can range over all of them:
  \<open>call\<close> runs an operation, \<open>sent\<close> is the URL and init object it hands to
  \<^verbatim>\<open>fetch\<close>, \<open>call_token\<close> the token it passes to \<open>request\<close> and \<open>has_body\<close>
  whether it passes a body. Lemma \<open>call_sends\<close> below ties them to the nine functions.
\<close>

datatype api_call =
    Register jsval jsval jsval jsval
  | Login jsval jsval
  | Me jsval
  | ListMyApplications jsval
  | CreateApplication jsval jsval jsval
  | SubmitApplication jsval jsval
  | WithdrawApplication jsval jsval
  | AdminListApplications jsval jsval jsval jsval jsval
  | AdminChangeStatus jsval jsval jsval jsval

fun call :: "fetch \<Rightarrow> string option \<Rightarrow> api_call \<Rightarrow> json outcome" where
  "call fetch apiBase (Register e p f l) = apiRegister fetch apiBase e p f l"
| "call fetch apiBase (Login e p) = apiLogin fetch apiBase e p"
| "call fetch apiBase (Me t) = apiMe fetch apiBase t"
| "call fetch apiBase (ListMyApplications t) = apiListMyApplications fetch apiBase t"
| "call fetch apiBase (CreateApplication t pr te) = apiCreateApplication fetch apiBase t pr te"
| "call fetch apiBase (SubmitApplication t i) = apiSubmitApplication fetch apiBase t i"
| "call fetch apiBase (WithdrawApplication t i) = apiWithdrawApplication fetch apiBase t i"
| "call fetch apiBase (AdminListApplications t st q li off) =
     apiAdminListApplications fetch apiBase t st q li off"
| "call fetch apiBase (AdminChangeStatus t i to re) = apiAdminChangeStatus fetch apiBase t i to re"

fun sent :: "string option \<Rightarrow> api_call \<Rightarrow> fetch_init" where
  "sent apiBase (Register e p f l) =
     request_init apiBase ''/auth/register'' (Some ''POST'') None
       (Some (object_literal [(''email'', e), (''password'', p), (''first_name'', f), (''last_name'', l)]))"
| "sent apiBase (Login e p) =
     request_init apiBase ''/auth/login'' (Some ''POST'') None
       (Some (object_literal [(''email'', e), (''password'', p)]))"
| "sent apiBase (Me t) = request_init apiBase ''/auth/me'' (Some ''GET'') t None"
| "sent apiBase (ListMyApplications t) =
     request_init apiBase ''/applications/my'' (Some ''GET'') t None"
| "sent apiBase (CreateApplication t pr te) =
     request_init apiBase ''/applications'' (Some ''POST'') t
       (Some (object_literal [(''program'', pr), (''term'', te)]))"
| "sent apiBase (SubmitApplication t i) =
     request_init apiBase (''/applications/'' @ String_val i @ ''/submit'') (Some ''POST'') t None"
| "sent apiBase (WithdrawApplication t i) =
     request_init apiBase (''/applications/'' @ String_val i @ ''/withdraw'') (Some ''POST'') t None"
| "sent apiBase (AdminListApplications t st q li off) =
     request_init apiBase
       (''/admin/applications?'' @ params_toString (admin_list_params st q li off))
       (Some ''GET'') t None"
| "sent apiBase (AdminChangeStatus t i to re) =
     request_init apiBase (''/admin/applications/'' @ String_val i @ ''/status'') (Some ''POST'') t
       (Some (object_literal [(''to_status'', to), (''reason'', re)]))"

fun call_token :: "api_call \<Rightarrow> jsval" where
  "call_token (Register e p f l) = None"
| "call_token (Login e p) = None"
| "call_token (Me t) = t"
| "call_token (ListMyApplications t) = t"
| "call_token (CreateApplication t pr te) = t"
| "call_token (SubmitApplication t i) = t"
| "call_token (WithdrawApplication t i) = t"
| "call_token (AdminListApplications t st q li off) = t"
| "call_token (AdminChangeStatus t i to re) = t"

fun has_body :: "api_call \<Rightarrow> bool" where
  "has_body (Register e p f l) = True"
| "has_body (Login e p) = True"
| "has_body (CreateApplication t pr te) = True"
| "has_body (AdminChangeStatus t i to re) = True"
| "has_body c = False"

text \<open>
  The error message as the specification words it, for comparison with
  \<open>errorFromResponse\<close>: the \<^verbatim>\<open>detail\<close> field when it is present and a string, else
  the status code followed by the JSON-stringified body.
\<close>

definition spec_error_message :: "nat \<Rightarrow> json \<Rightarrow> string" where
  "spec_error_message st data =
     (case get_prop data ''detail'' of
        Some (JStr d) \<Rightarrow> d
      | _ \<Rightarrow> show_nat st @ '': '' @ JSON_stringify data)"

section \<open>The view layer\<close>

subsection \<open>Session state and routes\<close>

text \<open>
  \<open>shell\<close> is the state of \<^verbatim>\<open>AppShell\<close>: the three \<^verbatim>\<open>useState\<close> cells, the
  \<^verbatim>\<open>sap_token\<close> entry of local storage (\<open>None\<close> when absent) and the router's
  location. The location is kept as the \<^verbatim>\<open>Route\<close> it matches: \<^verbatim>\<open>/\<close>, \<^verbatim>\<open>/login\<close>,
  \<^verbatim>\<open>/register\<close>, \<^verbatim>\<open>/student\<close>, \<^verbatim>\<open>/admin\<close>, or \<^verbatim>\<open>*\<close> for any other path.
\<close>

datatype route = PathHome | PathLogin | PathRegister | PathStudent | PathAdmin | PathOther

record shell =
  token :: jsval
  me :: json
  loadingMe :: bool
  sap_token :: "string option"
  pathname :: route

text \<open>The first render: \<^verbatim>\<open>localStorage.getItem('sap_token') || ''\<close>, no user yet.\<close>

definition initial_shell :: "string option \<Rightarrow> route \<Rightarrow> shell" where
  "initial_shell stored r =
     \<lparr> token = Some (JStr (case stored of None \<Rightarrow> [] | Some t \<Rightarrow> t)),
       me = JNull, loadingMe = False, sap_token = stored, pathname = r \<rparr>"

text \<open>
  \<^verbatim>\<open>(process.env.REACT_APP_API_BASE_URL || 'http://localhost:3001').replace(/\/$/, '')\<close>
\<close>

definition app_apiBase :: "string option \<Rightarrow> string" where
  "app_apiBase env =
     normalizeBase (Some (case env of None \<Rightarrow> ''http://localhost:3001''
                          | Some e \<Rightarrow> if e = [] then ''http://localhost:3001'' else e))"

text \<open>
  Reading a property of a value that may be null: \<^verbatim>\<open>x.key\<close> throws a TypeError on
  null. The engine words the message; the model fixes one wording.
\<close>

fun property_of :: "json \<Rightarrow> string \<Rightarrow> jsval outcome" where
  "property_of JNull k = Throw (TypeError (''Cannot read properties of null (reading '' @ k @ '')''))"
| "property_of v k = Return (get_prop v k)"

text \<open>\<^verbatim>\<open>me?.roles || []\<close>\<close>

definition roles_of :: "json \<Rightarrow> json" where
  "roles_of u =
     (case (if u = JNull then None else get_prop u ''roles'') of
        None \<Rightarrow> JArr []
      | Some r \<Rightarrow> if truthy r then r else JArr [])"

text \<open>
  \<^verbatim>\<open>roles.includes(role)\<close>: membership in an array, containment in a string, and a
  TypeError on anything else, which has no such method.
\<close>

fun js_includes :: "json \<Rightarrow> string \<Rightarrow> bool outcome" where
  "js_includes (JArr xs) r = Return (JStr r \<in> set xs)"
| "js_includes (JStr s) r = Return (sublist r s)"
| "js_includes v r = Throw (TypeError ''roles.includes is not a function'')"

text \<open>What a route shows. \<open>Navigate r\<close> is the redirect element \<^verbatim>\<open><Navigate replace />\<close>.\<close>

datatype view =
    Home
  | Navigate route
  | LoginPage
  | RegisterPage
  | AccessDenied string
  | StudentDashboard
  | AdminDashboard
  | NotFound

definition RequireAuth :: "jsval \<Rightarrow> view outcome \<Rightarrow> view outcome" where
  "RequireAuth tok children = (if \<not> truthy_val tok then Return (Navigate PathLogin) else children)"

definition RequireRole :: "json \<Rightarrow> string \<Rightarrow> view outcome \<Rightarrow> view outcome" where
  "RequireRole roles role children =
     (case js_includes roles role of
        Throw e \<Rightarrow> Throw e
      | Return has \<Rightarrow> if \<not> has then Return (AccessDenied role) else children)"

text \<open>
  The element that the \<^verbatim>\<open>Routes\<close> of \<^verbatim>\<open>AppShell\<close> show for the current location
  (lines 40 to 44 and 93 to 151). The navigation bar and the footer are not modelled.
\<close>

definition AppShell :: "shell \<Rightarrow> view outcome" where
  "AppShell s =
     (let isAuthed = truthy_val (token s);
          roles = roles_of (me s)
      in case js_includes roles ''student'' of
           Throw e \<Rightarrow> Throw e
         | Return isStudent \<Rightarrow>
            (case js_includes roles ''admin'' of
               Throw e \<Rightarrow> Throw e
             | Return isAdmin \<Rightarrow>
                (case pathname s of
                   PathHome \<Rightarrow> Return Home
                 | PathLogin \<Rightarrow>
                     Return (if isAuthed then Navigate (if isAdmin then PathAdmin else PathStudent)
                             else LoginPage)
                 | PathRegister \<Rightarrow>
                     Return (if isAuthed then Navigate PathStudent else RegisterPage)
                 | PathStudent \<Rightarrow>
                     RequireAuth (token s) (RequireRole roles ''student'' (Return StudentDashboard))
                 | PathAdmin \<Rightarrow>
                     RequireAuth (token s) (RequireRole roles ''admin'' (Return AdminDashboard))
                 | PathOther \<Rightarrow> Return NotFound)))"

text \<open>
  A rendered \<open>Navigate r\<close> replaces the location, and the shell renders again. One
  redirect is enough: lemma \<open>settle_stable\<close> below shows that none follows it.
\<close>

definition settle :: "shell \<Rightarrow> shell" where
  "settle s = (case AppShell s of Return (Navigate r) \<Rightarrow> s\<lparr>pathname := r\<rparr> | _ \<Rightarrow> s)"

subsection \<open>Session handlers of AppShell\<close>

text \<open>
  \<open>refreshMe_run\<close> is the body of \<^verbatim>\<open>refreshMe\<close> once \<^verbatim>\<open>nextToken\<close> is known;
  \<open>refreshMe\<close> fills in the default \<^verbatim>\<open>nextToken = token\<close> for an undefined argument.
  \<^verbatim>\<open>setLoadingMe(true)\<close> holds during the call and the \<^verbatim>\<open>finally\<close> resets it.
\<close>

definition refreshMe_run :: "fetch \<Rightarrow> string \<Rightarrow> jsval \<Rightarrow> shell \<Rightarrow> shell" where
  "refreshMe_run fetch apiBase nextToken s =
     (if \<not> truthy_val nextToken then s\<lparr>me := JNull\<rparr>
      else
        (let s1 = s\<lparr>loadingMe := True\<rparr> in
         case apiMe fetch (Some apiBase) nextToken of
           Return data \<Rightarrow> s1\<lparr>me := data, loadingMe := False\<rparr>
         | Throw e \<Rightarrow>
             s1\<lparr>me := JNull, token := Some (JStr []), sap_token := None, loadingMe := False\<rparr>))"

definition refreshMe :: "fetch \<Rightarrow> string \<Rightarrow> jsval \<Rightarrow> shell \<Rightarrow> shell" where
  "refreshMe fetch apiBase arg s =
     refreshMe_run fetch apiBase (case arg of None \<Rightarrow> token s | Some t \<Rightarrow> Some t) s"

definition onLogout :: "shell \<Rightarrow> shell" where
  "onLogout s = s\<lparr>token := Some (JStr []), me := JNull, sap_token := None, pathname := PathLogin\<rparr>"

text \<open>
  The \<^verbatim>\<open>onAuthed\<close> callback of the login and of the register route (the same code
  twice). The \<^verbatim>\<open>refreshMe\<close> it calls closes over the token of the render that made
  it, the one before \<^verbatim>\<open>setToken(t)\<close>.
\<close>

definition onAuthed :: "fetch \<Rightarrow> string \<Rightarrow> jsval \<Rightarrow> shell \<Rightarrow> shell" where
  "onAuthed fetch apiBase t s =
     (let s1 = s\<lparr>token := t, sap_token := Some (String_val t)\<rparr>;
          s2 = refreshMe_run fetch apiBase (case t of None \<Rightarrow> token s | Some v \<Rightarrow> Some v) s1
      in s2\<lparr>pathname := PathStudent\<rparr>)"

subsection \<open>Pages\<close>

text \<open>
  The local state of the four pages. \<open>error\<close> and \<open>busy\<close> are cells of every page,
  \<open>info\<close> and \<open>apps\<close> of both dashboards. \<open>term_input\<close>, \<open>status_filter\<close> and
  \<open>q_filter\<close> are the cells \<^verbatim>\<open>term\<close>, \<^verbatim>\<open>status\<close> and \<^verbatim>\<open>q\<close>.
\<close>

record form =
  error :: string
  busy :: bool

record login_page = form +
  email :: string
  password :: string

record register_page = login_page +
  firstName :: string
  lastName :: string

record dashboard = form +
  info :: string
  apps :: json

record student_dashboard = dashboard +
  program :: string
  term_input :: string

record admin_dashboard = dashboard +
  status_filter :: string
  q_filter :: string

definition initial_login :: login_page where
  "initial_login = \<lparr> error = [], busy = False,
                      email = ''student1@example.com'', password = ''password123'' \<rparr>"

definition initial_register :: register_page where
  "initial_register = \<lparr> error = [], busy = False,
                         email = ''student1@example.com'', password = ''password123'',
                         firstName = ''Stu'', lastName = ''Dent'' \<rparr>"

definition initial_student :: student_dashboard where
  "initial_student = \<lparr> error = [], busy = False, info = [], apps = JArr [],
                        program = ''Computer Science'', term_input = ''Fall 2026'' \<rparr>"

definition initial_admin :: admin_dashboard where
  "initial_admin = \<lparr> error = [], busy = False, info = [], apps = JArr [],
                      status_filter = [], q_filter = [] \<rparr>"

text \<open>\<^verbatim>\<open>e.message || fallback\<close>\<close>

definition message_or :: "js_error \<Rightarrow> string \<Rightarrow> string" where
  "message_or e fallback = (if message e = [] then fallback else message e)"

text \<open>
  \<^verbatim>\<open>LoginPage.submit\<close> and \<^verbatim>\<open>RegisterPage.submit\<close>. The \<^verbatim>\<open>try\<close> covers the call, the
  read of \<^verbatim>\<open>data.access_token\<close> and \<^verbatim>\<open>onAuthed\<close>; only \<^verbatim>\<open>onAuthed\<close> touches the shell.
\<close>

definition LoginPage_submit :: "fetch \<Rightarrow> string \<Rightarrow> shell \<times> login_page \<Rightarrow> shell \<times> login_page" where
  "LoginPage_submit fetch apiBase sp =
     (let s = fst sp; p1 = (snd sp)\<lparr>error := [], busy := True\<rparr> in
      case apiLogin fetch (Some apiBase) (Some (JStr (email p1))) (Some (JStr (password p1))) of
        Throw e \<Rightarrow> (s, p1\<lparr>error := message_or e ''Login failed'', busy := False\<rparr>)
      | Return data \<Rightarrow>
          (case property_of data ''access_token'' of
             Throw e \<Rightarrow> (s, p1\<lparr>error := message_or e ''Login failed'', busy := False\<rparr>)
           | Return t \<Rightarrow> (onAuthed fetch apiBase t s, p1\<lparr>busy := False\<rparr>)))"

definition RegisterPage_submit :: "fetch \<Rightarrow> string \<Rightarrow> shell \<times> register_page \<Rightarrow> shell \<times> register_page" where
  "RegisterPage_submit fetch apiBase sp =
     (let s = fst sp; p1 = (snd sp)\<lparr>error := [], busy := True\<rparr> in
      case apiRegister fetch (Some apiBase) (Some (JStr (email p1))) (Some (JStr (password p1)))
             (Some (JStr (firstName p1))) (Some (JStr (lastName p1))) of
        Throw e \<Rightarrow> (s, p1\<lparr>error := message_or e ''Registration failed'', busy := False\<rparr>)
      | Return data \<Rightarrow>
          (case property_of data ''access_token'' of
             Throw e \<Rightarrow> (s, p1\<lparr>error := message_or e ''Registration failed'', busy := False\<rparr>)
           | Return t \<Rightarrow> (onAuthed fetch apiBase t s, p1\<lparr>busy := False\<rparr>)))"

text \<open>
  The handlers of \<^verbatim>\<open>StudentDashboard\<close>. The dashboard gets \<^verbatim>\<open>apiBase\<close> and \<^verbatim>\<open>token\<close>
  as props and has no setter of the shell. \<^verbatim>\<open>refresh\<close> never throws; the other three
  run it inside their own \<^verbatim>\<open>try\<close>, after \<^verbatim>\<open>setInfo\<close>.
\<close>

definition StudentDashboard_refresh :: "fetch \<Rightarrow> string \<Rightarrow> jsval \<Rightarrow> student_dashboard \<Rightarrow> student_dashboard" where
  "StudentDashboard_refresh fetch apiBase tok d =
     (let d1 = d\<lparr>error := [], info := [], busy := True\<rparr> in
      case apiListMyApplications fetch (Some apiBase) tok of
        Return data \<Rightarrow> d1\<lparr>apps := data, busy := False\<rparr>
      | Throw e \<Rightarrow> d1\<lparr>error := message_or e ''Failed to load applications'', busy := False\<rparr>)"

definition createDraft :: "fetch \<Rightarrow> string \<Rightarrow> jsval \<Rightarrow> student_dashboard \<Rightarrow> student_dashboard" where
  "createDraft fetch apiBase tok d =
     (let d1 = d\<lparr>error := [], info := [], busy := True\<rparr>;
          failed = (\<lambda>e. d1\<lparr>error := message_or e ''Failed to create application'', busy := False\<rparr>)
      in case apiCreateApplication fetch (Some apiBase) tok
                (Some (JStr (program d))) (Some (JStr (term_input d))) of
           Throw e \<Rightarrow> failed e
         | Return created \<Rightarrow>
             (case property_of created ''id'' of
                Throw e \<Rightarrow> failed e
              | Return i \<Rightarrow>
                  (StudentDashboard_refresh fetch apiBase tok
                     (d1\<lparr>info := ''Created draft application '' @ String_val i\<rparr>))\<lparr>busy := False\<rparr>))"

definition submitApp :: "fetch \<Rightarrow> string \<Rightarrow> jsval \<Rightarrow> jsval \<Rightarrow> student_dashboard \<Rightarrow> student_dashboard" where
  "submitApp fetch apiBase tok appId d =
     (let d1 = d\<lparr>error := [], info := [], busy := True\<rparr> in
      case apiSubmitApplication fetch (Some apiBase) tok appId of
        Throw e \<Rightarrow> d1\<lparr>error := message_or e ''Failed to submit application'', busy := False\<rparr>
      | Return r \<Rightarrow>
          (StudentDashboard_refresh fetch apiBase tok
             (d1\<lparr>info := ''Submitted application '' @ String_val appId\<rparr>))\<lparr>busy := False\<rparr>)"

definition withdrawApp :: "fetch \<Rightarrow> string \<Rightarrow> jsval \<Rightarrow> jsval \<Rightarrow> student_dashboard \<Rightarrow> student_dashboard" where
  "withdrawApp fetch apiBase tok appId d =
     (let d1 = d\<lparr>error := [], info := [], busy := True\<rparr> in
      case apiWithdrawApplication fetch (Some apiBase) tok appId of
        Throw e \<Rightarrow> d1\<lparr>error := message_or e ''Failed to withdraw application'', busy := False\<rparr>
      | Return r \<Rightarrow>
          (StudentDashboard_refresh fetch apiBase tok
             (d1\<lparr>info := ''Withdrew application '' @ String_val appId\<rparr>))\<lparr>busy := False\<rparr>)"

text \<open>
  The handlers of \<^verbatim>\<open>AdminDashboard\<close>. \<^verbatim>\<open>status || null\<close> and \<^verbatim>\<open>q || null\<close> turn an
  empty filter into null; \<^verbatim>\<open>limit\<close> and \<^verbatim>\<open>offset\<close> are left out.
\<close>

definition or_null :: "string \<Rightarrow> jsval" where
  "or_null x = (if x = [] then Some JNull else Some (JStr x))"

definition AdminDashboard_refresh :: "fetch \<Rightarrow> string \<Rightarrow> jsval \<Rightarrow> admin_dashboard \<Rightarrow> admin_dashboard" where
  "AdminDashboard_refresh fetch apiBase tok d =
     (let d1 = d\<lparr>error := [], info := [], busy := True\<rparr> in
      case apiAdminListApplications fetch (Some apiBase) tok
             (or_null (status_filter d)) (or_null (q_filter d)) None None of
        Return data \<Rightarrow> d1\<lparr>apps := data, busy := False\<rparr>
      | Throw e \<Rightarrow> d1\<lparr>error := message_or e ''Failed to load applications'', busy := False\<rparr>)"

definition changeStatus :: "fetch \<Rightarrow> string \<Rightarrow> jsval \<Rightarrow> jsval \<Rightarrow> string \<Rightarrow> admin_dashboard \<Rightarrow> admin_dashboard" where
  "changeStatus fetch apiBase tok appId toStatus d =
     (let d1 = d\<lparr>error := [], info := [], busy := True\<rparr> in
      case apiAdminChangeStatus fetch (Some apiBase) tok appId (Some (JStr toStatus)) (Some JNull) of
        Throw e \<Rightarrow> d1\<lparr>error := message_or e ''Failed to change status'', busy := False\<rparr>
      | Return r \<Rightarrow>
          (AdminDashboard_refresh fetch apiBase tok
             (d1\<lparr>info := ''Changed status to '' @ toStatus @ '' for '' @ String_val appId\<rparr>))
            \<lparr>busy := False\<rparr>)"

subsection \<open>Action buttons\<close>

text \<open>
  The \<^verbatim>\<open>disabled\<close> attribute of the six row buttons, from the dashboard's \<^verbatim>\<open>busy\<close>
  cell and the row's \<^verbatim>\<open>a.status\<close>. \<^verbatim>\<open>[...].includes(x)\<close> compares with strict
  equality, so only a string equal to one of the names counts.
\<close>

definition status_in :: "string list \<Rightarrow> jsval \<Rightarrow> bool" where
  "status_in names v = (v \<in> set (map (\<lambda>n. Some (JStr n)) names))"

definition submit_disabled :: "bool \<Rightarrow> jsval \<Rightarrow> bool" where
  "submit_disabled bsy st = (bsy \<or> \<not> status_in [''draft'', ''needs_info''] st)"

definition withdraw_disabled :: "bool \<Rightarrow> jsval \<Rightarrow> bool" where
  "withdraw_disabled bsy st = (bsy \<or> status_in [''approved'', ''rejected'', ''withdrawn''] st)"

definition in_review_disabled :: "bool \<Rightarrow> jsval \<Rightarrow> bool" where
  "in_review_disabled bsy st = (bsy \<or> \<not> status_in [''submitted'', ''needs_info''] st)"

definition needs_info_disabled :: "bool \<Rightarrow> jsval \<Rightarrow> bool" where
  "needs_info_disabled bsy st = (bsy \<or> \<not> status_in [''submitted'', ''in_review''] st)"

definition approve_disabled :: "bool \<Rightarrow> jsval \<Rightarrow> bool" where
  "approve_disabled bsy st = (bsy \<or> \<not> status_in [''in_review''] st)"

definition reject_disabled :: "bool \<Rightarrow> jsval \<Rightarrow> bool" where
  "reject_disabled bsy st =
     (bsy \<or> \<not> status_in [''submitted'', ''in_review'', ''needs_info'', ''draft''] st)"

text \<open>The seven statuses, as the options of the admin filter list them.\<close>

datatype app_status = Draft | Submitted | In_review | Needs_info | Approved | Rejected | Withdrawn

fun status_name :: "app_status \<Rightarrow> string" where
  "status_name Draft = ''draft''"
| "status_name Submitted = ''submitted''"
| "status_name In_review = ''in_review''"
| "status_name Needs_info = ''needs_info''"
| "status_name Approved = ''approved''"
| "status_name Rejected = ''rejected''"
| "status_name Withdrawn = ''withdrawn''"

subsection \<open>The application as a whole\<close>

text \<open>
  The shell and the local state of its pages, and the things a user can do: each
  \<open>event\<close> is one handler of \<^verbatim>\<open>App.js\<close> run to its end, with the network's
  behaviour during it, or a field edit, or a change of location. \<open>handle\<close> runs the
  handler; \<open>step\<close> then follows a redirect and gives a page that is not shown its
  initial state again, since an unmounted component loses its cells.
\<close>

record app =
  sh :: shell
  loginPage :: login_page
  registerPage :: register_page
  studentDashboard :: student_dashboard
  adminDashboard :: admin_dashboard

datatype event =
    SubmitLogin fetch
  | SubmitRegister fetch
  | RefreshSession fetch
  | Logout
  | StudentRefresh fetch
  | CreateDraft fetch
  | SubmitApp jsval fetch
  | WithdrawApp jsval fetch
  | AdminRefresh fetch
  | ChangeStatus jsval string fetch
  | GoTo route
  | SetLoginEmail string
  | SetLoginPassword string
  | SetRegisterFirstName string
  | SetRegisterLastName string
  | SetRegisterEmail string
  | SetRegisterPassword string
  | SetProgram string
  | SetTerm string
  | SetStatus string
  | SetQ string

fun handle :: "string \<Rightarrow> event \<Rightarrow> app \<Rightarrow> app" where
  "handle apiBase (SubmitLogin f) a =
     (let r = LoginPage_submit f apiBase (sh a, loginPage a) in a\<lparr>sh := fst r, loginPage := snd r\<rparr>)"
| "handle apiBase (SubmitRegister f) a =
     (let r = RegisterPage_submit f apiBase (sh a, registerPage a)
      in a\<lparr>sh := fst r, registerPage := snd r\<rparr>)"
| "handle apiBase (RefreshSession f) a = a\<lparr>sh := refreshMe f apiBase None (sh a)\<rparr>"
| "handle apiBase Logout a = a\<lparr>sh := onLogout (sh a)\<rparr>"
| "handle apiBase (StudentRefresh f) a =
     a\<lparr>studentDashboard := StudentDashboard_refresh f apiBase (token (sh a)) (studentDashboard a)\<rparr>"
| "handle apiBase (CreateDraft f) a =
     a\<lparr>studentDashboard := createDraft f apiBase (token (sh a)) (studentDashboard a)\<rparr>"
| "handle apiBase (SubmitApp i f) a =
     a\<lparr>studentDashboard := submitApp f apiBase (token (sh a)) i (studentDashboard a)\<rparr>"
| "handle apiBase (WithdrawApp i f) a =
     a\<lparr>studentDashboard := withdrawApp f apiBase (token (sh a)) i (studentDashboard a)\<rparr>"
| "handle apiBase (AdminRefresh f) a =
     a\<lparr>adminDashboard := AdminDashboard_refresh f apiBase (token (sh a)) (adminDashboard a)\<rparr>"
| "handle apiBase (ChangeStatus i to f) a =
     a\<lparr>adminDashboard := changeStatus f apiBase (token (sh a)) i to (adminDashboard a)\<rparr>"
| "handle apiBase (GoTo r) a = a\<lparr>sh := (sh a)\<lparr>pathname := r\<rparr>\<rparr>"
| "handle apiBase (SetLoginEmail x) a = a\<lparr>loginPage := (loginPage a)\<lparr>email := x\<rparr>\<rparr>"
| "handle apiBase (SetLoginPassword x) a = a\<lparr>loginPage := (loginPage a)\<lparr>password := x\<rparr>\<rparr>"
| "handle apiBase (SetRegisterFirstName x) a = a\<lparr>registerPage := (registerPage a)\<lparr>firstName := x\<rparr>\<rparr>"
| "handle apiBase (SetRegisterLastName x) a = a\<lparr>registerPage := (registerPage a)\<lparr>lastName := x\<rparr>\<rparr>"
| "handle apiBase (SetRegisterEmail x) a = a\<lparr>registerPage := (registerPage a)\<lparr>email := x\<rparr>\<rparr>"
| "handle apiBase (SetRegisterPassword x) a = a\<lparr>registerPage := (registerPage a)\<lparr>password := x\<rparr>\<rparr>"
| "handle apiBase (SetProgram x) a = a\<lparr>studentDashboard := (studentDashboard a)\<lparr>program := x\<rparr>\<rparr>"
| "handle apiBase (SetTerm x) a = a\<lparr>studentDashboard := (studentDashboard a)\<lparr>term_input := x\<rparr>\<rparr>"
| "handle apiBase (SetStatus x) a = a\<lparr>adminDashboard := (adminDashboard a)\<lparr>status_filter := x\<rparr>\<rparr>"
| "handle apiBase (SetQ x) a = a\<lparr>adminDashboard := (adminDashboard a)\<lparr>q_filter := x\<rparr>\<rparr>"

definition remount :: "app \<Rightarrow> app" where
  "remount a =
     (let v = AppShell (sh a) in
      a\<lparr> loginPage := (if v = Return LoginPage then loginPage a else initial_login),
         registerPage := (if v = Return RegisterPage then registerPage a else initial_register),
         studentDashboard := (if v = Return StudentDashboard then studentDashboard a else initial_student),
         adminDashboard := (if v = Return AdminDashboard then adminDashboard a else initial_admin) \<rparr>)"

definition step :: "string \<Rightarrow> event \<Rightarrow> app \<Rightarrow> app" where
  "step apiBase e a = (let b = handle apiBase e a in remount (b\<lparr>sh := settle (sh b)\<rparr>))"

subsection \<open>A sample session\<close>

text \<open>
  A signed-in student whose token the backend no longer accepts, at a given
  location, and a backend that answers every request with status 401 and the body
  \<^verbatim>\<open>{"detail":"Invalid token"}\<close>.
\<close>

definition expired_session :: "route \<Rightarrow> app" where
  "expired_session r =
     \<lparr> sh = \<lparr> token = Some (JStr ''expired''),
              me = JObj [(''email'', JStr ''student1@example.com''),
                         (''roles'', JArr [JStr ''student''])],
              loadingMe = False, sap_token = Some ''expired'', pathname = r \<rparr>,
       loginPage = initial_login, registerPage = initial_register,
       studentDashboard = initial_student, adminDashboard = initial_admin \<rparr>"


definition rejecting :: fetch where
  "rejecting = (\<lambda>i. Return \<lparr> status = 401, content_type = Some ''application/json'',
                              body_text = JSON_stringify (JObj [(''detail'', JStr ''Invalid token'')]),
                              parsed = Inr (JObj [(''detail'', JStr ''Invalid token'')]) \<rparr>)"

text \<open>
  A backend at \<^verbatim>\<open>http://localhost:3001\<close> that answers a login and a register
  with the token \<^verbatim>\<open>abc\<close> and every other request with the student's user record,
  and a visitor who is not signed in, on the login page.
\<close>

definition token_response :: json where
  "token_response = JObj [(''access_token'', JStr ''abc''), (''token_type'', JStr ''bearer'')]"

definition user_record :: json where
  "user_record = JObj [(''email'', JStr ''student1@example.com''), (''roles'', JArr [JStr ''student''])]"

definition accepting :: fetch where
  "accepting =
     (\<lambda>i. if url i = ''http://localhost:3001/auth/login''
              \<or> url i = ''http://localhost:3001/auth/register''
           then Return \<lparr> status = 200, content_type = Some ''application/json'',
                          body_text = JSON_stringify token_response, parsed = Inr token_response \<rparr>
           else Return \<lparr> status = 200, content_type = Some ''application/json'',
                          body_text = JSON_stringify user_record, parsed = Inr user_record \<rparr>)"

text \<open>
  Two more backends at the same address: one that answers a login and a register
  with the token and rejects every other request with status 401, and one whose
  every answer is the empty object, so that a login reply carries no
  \<^verbatim>\<open>access_token\<close>.
\<close>

definition signin_only :: fetch where
  "signin_only =
     (\<lambda>i. if url i = ''http://localhost:3001/auth/login''
              \<or> url i = ''http://localhost:3001/auth/register''
           then accepting i else rejecting i)"

definition tokenless :: fetch where
  "tokenless = (\<lambda>i. Return \<lparr> status = 200, content_type = Some ''application/json'',
                              body_text = ''{}'', parsed = Inr (JObj []) \<rparr>)"

definition visitor :: app where
  "visitor = \<lparr> sh = initial_shell None PathLogin,
               loginPage = initial_login, registerPage = initial_register,
               studentDashboard = initial_student, adminDashboard = initial_admin \<rparr>"

section \<open>Properties of the API client\<close>

subsection \<open>Helper facts\<close>

lemma call_sends: "call fetch apiBase c = request_finish (fetch (sent apiBase c))"
  by (cases c)
     (simp_all add: request_def apiRegister_def apiLogin_def apiMe_def apiListMyApplications_def
        apiCreateApplication_def apiSubmitApplication_def apiWithdrawApplication_def
        apiAdminListApplications_def apiAdminChangeStatus_def)

lemma ends_with_slash: "(s \<noteq> [] \<and> last s = CHR ''/'') = suffix ''/'' s"
  by (cases s rule: rev_cases) (auto simp: suffix_def)

lemma normalizeBase_cases:
  "normalizeBase None = []"
  "normalizeBase (Some (b @ ''/'')) = b"
  "\<not> suffix ''/'' b \<Longrightarrow> normalizeBase (Some b) = b"
  by (simp_all add: normalizeBase_def ends_with_slash)

lemma sent_url:
  "url (request_init apiBase pth meth tok bdy) = normalizeBase apiBase @ pth"
  by (simp add: request_init_def)

lemma sent_headers:
  "map_of (headers (request_init apiBase pth meth tok bdy)) ''Content-Type'' = Some ''application/json''"
  "map_of (headers (request_init apiBase pth meth tok bdy)) ''Authorization'' =
     (if truthy_val tok then Some (''Bearer '' @ String_val tok) else None)"
  by (simp_all add: request_init_def)

lemma sent_body_none: "body (request_init apiBase pth meth tok None) = None"
  by (simp add: request_init_def)

lemma sent_body_object:
  "body (request_init apiBase pth meth tok (Some (object_literal fs))) =
     Some (JSON_stringify (object_literal fs))"
  by (simp add: request_init_def) (simp add: object_literal_def)

lemma request_returns:
  "fetch (request_init apiBase pth meth tok bdy) = Return resp \<Longrightarrow>
   request fetch apiBase pth meth tok bdy = request_finish (Return resp)"
  by (simp add: request_def)

lemma request_finish_failure:
  "\<not> ok resp \<Longrightarrow> parseJsonOrText resp = Return data \<Longrightarrow>
   request_finish (Return resp) = Throw (errorFromResponse (status resp) data)"
  by (simp add: request_finish_def)

lemma error_detail_string:
  "get_prop data ''detail'' = Some (JStr d) \<Longrightarrow> errorFromResponse st data = Error d"
  by (cases data) (simp_all add: errorFromResponse_def)

lemma error_detail_absent:
  "is_object data \<Longrightarrow> get_prop data ''detail'' \<in> {None, Some JNull} \<Longrightarrow>
   errorFromResponse st data = Error (show_nat st @ '': '' @ JSON_stringify data)"
  by (cases data) (auto simp: errorFromResponse_def)

lemma error_detail_other:
  "get_prop data ''detail'' = Some d \<Longrightarrow> d \<noteq> JNull \<Longrightarrow> \<forall>s. d \<noteq> JStr s \<Longrightarrow>
   errorFromResponse st data = Error (show_nat st @ '': '' @ JSON_stringify d)"
  by (cases data; cases d) (simp_all add: errorFromResponse_def)

lemma error_not_object:
  "\<not> is_object data \<Longrightarrow> errorFromResponse st data = Error (show_nat st @ '': '' @ String_js data)"
  by (cases data) (simp_all add: errorFromResponse_def)

lemma admin_list_params_eq:
  "admin_list_params stat q lim off =
      (if truthy_val stat then [(''status'', String_val stat)] else [])
    @ (if truthy_val q then [(''q'', String_val q)] else [])
    @ [(''limit'', case lim of None \<Rightarrow> ''50'' | Some v \<Rightarrow> String_js v),
       (''offset'', case off of None \<Rightarrow> ''0'' | Some v \<Rightarrow> String_js v)]"
  by (simp add: admin_list_params_def split: option.splits)

lemma hex_upper_inverse:
  assumes "d < 16"
  shows "is_hex (hex_upper d)" "hex_val (hex_upper d) = d"
proof -
  have "d = 0 \<or> d = 1 \<or> d = 2 \<or> d = 3 \<or> d = 4 \<or> d = 5 \<or> d = 6 \<or> d = 7 \<or> d = 8
          \<or> d = 9 \<or> d = 10 \<or> d = 11 \<or> d = 12 \<or> d = 13 \<or> d = 14 \<or> d = 15"
    using assms by arith
  then show "is_hex (hex_upper d)" "hex_val (hex_upper d) = d"
    by (auto simp: hex_upper_def is_hex_def hex_val_def)
qed

lemma hex_upper_plain:
  assumes "d < 16"
  shows "hex_upper d \<noteq> CHR ''&''" "hex_upper d \<noteq> CHR ''=''"
proof -
  have "d = 0 \<or> d = 1 \<or> d = 2 \<or> d = 3 \<or> d = 4 \<or> d = 5 \<or> d = 6 \<or> d = 7 \<or> d = 8
          \<or> d = 9 \<or> d = 10 \<or> d = 11 \<or> d = 12 \<or> d = 13 \<or> d = 14 \<or> d = 15"
    using assms by arith
  then show "hex_upper d \<noteq> CHR ''&''" "hex_upper d \<noteq> CHR ''=''"
    by (auto simp: hex_upper_def)
qed

lemma char_by_code: "(of_char c :: nat) = of_char d \<Longrightarrow> c = d"
  by simp

lemma form_byte_decode: "form_decode (form_byte c @ rest) = c # form_decode rest"
proof -
  let ?n = "of_char c :: nat"
  have lt: "?n div 16 < 16" using nat_of_char_less_256 [of c] by arith
  have re: "char_of (16 * (?n div 16) + ?n mod 16) = c" by simp
  consider (space) "?n = 0x20"
    | (plain) "?n \<noteq> 0x20" "(0x30 \<le> ?n \<and> ?n \<le> 0x39) \<or> (0x41 \<le> ?n \<and> ?n \<le> 0x5A)
                 \<or> (0x61 \<le> ?n \<and> ?n \<le> 0x7A) \<or> ?n = 0x2A \<or> ?n = 0x2D \<or> ?n = 0x2E \<or> ?n = 0x5F"
    | (other) "?n \<noteq> 0x20" "\<not> ((0x30 \<le> ?n \<and> ?n \<le> 0x39) \<or> (0x41 \<le> ?n \<and> ?n \<le> 0x5A)
                 \<or> (0x61 \<le> ?n \<and> ?n \<le> 0x7A) \<or> ?n = 0x2A \<or> ?n = 0x2D \<or> ?n = 0x2E \<or> ?n = 0x5F)"
    by blast
  then show ?thesis
  proof cases
    case space
    then have "c = CHR '' ''" by (intro char_by_code) simp
    then show ?thesis by (simp add: form_byte_def)
  next
    case plain
    then have "c \<noteq> CHR ''+''" "c \<noteq> CHR ''%''" by auto
    then show ?thesis using plain by (simp add: form_byte_def Let_def)
  next
    case other
    then have "form_byte c = [CHR ''%'', hex_upper (?n div 16), hex_upper (?n mod 16)]"
      by (simp add: form_byte_def Let_def)
    then show ?thesis
      using hex_upper_inverse [OF lt] hex_upper_inverse [of "?n mod 16"] re by simp
  qed
qed

lemma form_decode_encode: "form_decode (form_encode s @ rest) = s @ form_decode rest"
  by (induction s) (simp_all add: form_encode_def form_byte_decode)

lemma form_byte_plain: "CHR ''&'' \<notin> set (form_byte c) \<and> CHR ''='' \<notin> set (form_byte c)"
proof -
  let ?n = "of_char c :: nat"
  have lt: "?n div 16 < 16" using nat_of_char_less_256 [of c] by arith
  show ?thesis
    using hex_upper_plain [OF lt] hex_upper_plain [of "?n mod 16"]
    by (auto simp: form_byte_def Let_def)
qed

lemma form_encode_plain: "CHR ''&'' \<notin> set (form_encode s)" "CHR ''='' \<notin> set (form_encode s)"
  using form_byte_plain by (auto simp: form_encode_def)


lemma split_on_nonempty: "split_on c s \<noteq> []"
  by (induction s) (auto split: list.splits)

lemma split_on_plain: "c \<notin> set a \<Longrightarrow> split_on c a = [a]"
  by (induction a) auto

lemma split_on_first: "c \<notin> set a \<Longrightarrow> split_on c (a @ c # rest) = a # split_on c rest"
  by (induction a) auto

lemma split_on_join:
  "segs \<noteq> [] \<Longrightarrow> \<forall>seg \<in> set segs. c \<notin> set seg \<Longrightarrow> split_on c (join_with [c] segs) = segs"
proof (induction "[c]" segs rule: join_with.induct)
  case 1
  then show ?case by simp
next
  case (2 x)
  then show ?case by (simp add: split_on_plain)
next
  case (3 x y ys)
  then show ?case by (simp add: split_on_first)
qed

lemma segment_read:
  "CHR ''='' \<notin> set en \<Longrightarrow> takeWhile (\<lambda>x. x \<noteq> CHR ''='') (en @ CHR ''='' # ev) = en"
  "CHR ''='' \<notin> set en \<Longrightarrow> drop (Suc 0) (dropWhile (\<lambda>x. x \<noteq> CHR ''='') (en @ CHR ''='' # ev)) = ev"
  by (induction en) auto

lemma parse_query_toString: "parse_query (params_toString ps) = ps"
proof (cases "ps = []")
  case True
  then show ?thesis by (simp add: parse_query_def params_toString_def)
next
  case False
  let ?seg = "\<lambda>p. form_encode (fst p) @ CHR ''='' # form_encode (snd p)"
  have plain: "\<forall>seg \<in> set (map ?seg ps). CHR ''&'' \<notin> set seg"
    using form_encode_plain(1) by auto
  have split: "split_on CHR ''&'' (params_toString ps) = map ?seg ps"
    unfolding params_toString_def
    using split_on_join [of "map ?seg ps" "CHR ''&''"] False plain by simp
  have keep: "filter (\<lambda>seg. seg \<noteq> []) (map ?seg ps) = map ?seg ps"
    by (induction ps) simp_all
  have dec: "form_decode (form_encode x) = x" for x
    using form_decode_encode [of x "[]"] by simp
  have one: "(form_decode (takeWhile (\<lambda>x. x \<noteq> CHR ''='') (?seg p)),
              form_decode (drop (Suc 0) (dropWhile (\<lambda>x. x \<noteq> CHR ''='') (?seg p)))) = p" for p
    using form_encode_plain(2) [of "fst p"] by (simp add: segment_read dec)
  show ?thesis
    unfolding parse_query_def split keep
    by (simp add: one comp_def)
qed

lemma admin_list_url:
  "url (sent apiBase (AdminListApplications tok stat q lim off))
     = normalizeBase apiBase @ ''/admin/applications?''
       @ params_toString (admin_list_params stat q lim off)"
  by (simp add: sent_url)

lemma sent_content_type:
  "map_of (headers (sent apiBase c)) ''Content-Type'' = Some ''application/json''"
  by (cases c) (simp_all add: sent_headers)

lemma sent_authorization:
  "map_of (headers (sent apiBase c)) ''Authorization''
     = (if truthy_val (call_token c) then Some (''Bearer '' @ String_val (call_token c)) else None)"
  by (cases c) (simp_all add: sent_headers)

lemma sent_body: "(body (sent apiBase c) \<noteq> None) = has_body c"
  by (cases c) (simp_all add: sent_body_none sent_body_object)

lemma sent_body_literal:
  "has_body c \<Longrightarrow> \<exists>fs. body (sent apiBase c) = Some (JSON_stringify (object_literal fs))"
  by (cases c) (auto simp: sent_body_object)

lemma sent_body_is_object:
  "has_body c \<Longrightarrow> \<exists>kvs. body (sent apiBase c) = Some (JSON_stringify (JObj kvs))"
  using sent_body_literal [of c apiBase] unfolding object_literal_def by blast

subsection \<open>The request URL\<close>

text \<open>
  C9. The URL that \<open>request\<close> hands to \<^verbatim>\<open>fetch\<close> is the base with one trailing slash
  removed, if it has one, followed by the path: a base \<open>b/\<close> gives \<open>b\<close> and the path,
  a base that does not end in a slash is kept whole, a base \<open>b//\<close> keeps one of its
  two slashes, and a null or undefined base gives the path alone.
\<close>

theorem request_url_strips_one_slash:
  "url (request_init (Some (b @ ''/'')) pth meth tok bdy) = b @ pth
   \<and> (\<not> suffix ''/'' b \<longrightarrow> url (request_init (Some b) pth meth tok bdy) = b @ pth)
   \<and> url (request_init (Some (b @ ''//'')) pth meth tok bdy) = b @ ''/'' @ pth
   \<and> url (request_init None pth meth tok bdy) = pth
   \<and> request fetch apiBase pth meth tok bdy
       = request_finish (fetch (request_init apiBase pth meth tok bdy))"
proof -
  have two: "normalizeBase (Some (b @ ''//'')) = b @ ''/''"
    using normalizeBase_cases(2) [of "b @ ''/''"] by simp
  show ?thesis
    by (simp add: sent_url normalizeBase_cases two request_def)
qed

theorem request_url_strips_one_slash_witness:
  "url (request_init (Some ''http://localhost:3001/'') ''/auth/me'' (Some ''GET'') None None)
     = ''http://localhost:3001/auth/me''
   \<and> \<not> suffix ''/'' ''http://localhost:3001''
   \<and> url (request_init (Some ''http://localhost:3001'') ''/auth/me'' (Some ''GET'') None None)
     = ''http://localhost:3001/auth/me''
   \<and> url (request_init (Some ''http://localhost:3001//'') ''/auth/me'' (Some ''GET'') None None)
     = ''http://localhost:3001//auth/me''
   \<and> url (request_init None ''/auth/me'' (Some ''GET'') None None) = ''/auth/me''"
proof -
  have ns: "\<not> suffix ''/'' ''http://localhost:3001''"
    by (simp add: ends_with_slash [symmetric])
  from request_url_strips_one_slash
         [of "''http://localhost:3001''" "''/auth/me''" "Some ''GET''" None None]
  show ?thesis using ns by simp
qed

subsection \<open>Successful requests\<close>

text \<open>
  C4, as the specification states it, does not hold for every 2xx response: when the
  content type declares JSON and the body does not parse (here an empty body),
  \<^verbatim>\<open>resp.json()\<close> rejects and \<open>request\<close> throws the parser's SyntaxError instead of
  returning.
\<close>

theorem declared_json_unparsable_throws:
  "ok \<lparr>status = 200, content_type = Some ''application/json'', body_text = [],
       parsed = Inl ''Unexpected end of JSON input''\<rparr>
   \<and> apiListMyApplications
        (\<lambda>i. Return \<lparr>status = 200, content_type = Some ''application/json'', body_text = [],
                       parsed = Inl ''Unexpected end of JSON input''\<rparr>)
        (Some ''http://localhost:3001'') (Some (JStr ''tok''))
       = Throw (SyntaxError ''Unexpected end of JSON input'')"
  by (simp add: ok_def apiListMyApplications_def request_def request_finish_def
        parseJsonOrText_def)

text \<open>
  C4, amended. For a 2xx response \<open>request\<close> returns the parsed body whenever the
  body parses as JSON, whatever the content type. When it does not parse, \<open>request\<close>
  returns the raw text if the content type does not contain \<^verbatim>\<open>application/json\<close>,
  and throws the parser's SyntaxError if it does.
\<close>

theorem request_success_body:
  assumes "fetch (request_init apiBase pth meth tok bdy) = Return resp" and "ok resp"
  shows "request fetch apiBase pth meth tok bdy =
     (case parsed resp of
        Inr j \<Rightarrow> Return j
      | Inl m \<Rightarrow>
          if sublist ''application/json'' (case content_type resp of None \<Rightarrow> [] | Some c \<Rightarrow> c)
          then Throw (SyntaxError m)
          else Return (JStr (body_text resp)))"
  using assms
  by (simp add: request_returns request_finish_def parseJsonOrText_def split: sum.splits)

theorem request_success_body_witness:
  "ok \<lparr>status = 200, content_type = Some ''application/json; charset=utf-8'',
       body_text = ''[]'', parsed = Inr (JArr [])\<rparr>
   \<and> apiListMyApplications
        (\<lambda>i. Return \<lparr>status = 200, content_type = Some ''application/json; charset=utf-8'',
                       body_text = ''[]'', parsed = Inr (JArr [])\<rparr>)
        (Some ''http://localhost:3001'') (Some (JStr ''tok'')) = Return (JArr [])
   \<and> ok \<lparr>status = 201, content_type = Some ''text/plain'', body_text = ''created'',
         parsed = Inl ''Unexpected token c''\<rparr>
   \<and> apiListMyApplications
        (\<lambda>i. Return \<lparr>status = 201, content_type = Some ''text/plain'', body_text = ''created'',
                       parsed = Inl ''Unexpected token c''\<rparr>)
        (Some ''http://localhost:3001'') (Some (JStr ''tok'')) = Return (JStr ''created'')"
proof -
  let ?a = "\<lparr>status = 200, content_type = Some ''application/json; charset=utf-8'',
             body_text = ''[]'', parsed = Inr (JArr [])\<rparr>"
  let ?b = "\<lparr>status = 201, content_type = Some ''text/plain'', body_text = ''created'',
             parsed = Inl ''Unexpected token c''\<rparr>"
  have a: "ok ?a" and b: "ok ?b" by (simp_all add: ok_def)
  have "request (\<lambda>i. Return ?a) (Some ''http://localhost:3001'') ''/applications/my''
          (Some ''GET'') (Some (JStr ''tok'')) None = Return (JArr [])"
    using request_success_body [of "\<lambda>i. Return ?a" _ _ _ _ _ ?a, OF refl a] by simp
  moreover have "request (\<lambda>i. Return ?b) (Some ''http://localhost:3001'') ''/applications/my''
          (Some ''GET'') (Some (JStr ''tok'')) None = Return (JStr ''created'')"
    using request_success_body [of "\<lambda>i. Return ?b" _ _ _ _ _ ?b, OF refl b]
    by (simp add: sublist_code)
  ultimately show ?thesis using a b by (simp add: apiListMyApplications_def)
qed

subsection \<open>Failed requests\<close>

text \<open>
  C1, as the specification states it, does not hold, on two kinds of response.
  A body that is not an object is appended with \<^verbatim>\<open>String\<close>, not with
  \<^verbatim>\<open>JSON.stringify\<close>: a plain-text \<^verbatim>\<open>Internal Server Error\<close> with status 500 gives
  the message \<^verbatim>\<open>500: Internal Server Error\<close>, which holds no quote character, while
  the JSON-stringified body is quoted. And a response that declares JSON but whose
  body does not parse (here a 401 with an empty body) never reaches
  \<open>errorFromResponse\<close>: \<open>request\<close> throws the parser's SyntaxError, whose message
  comes from neither the \<^verbatim>\<open>detail\<close> field nor the status code.
\<close>

theorem failure_message_not_as_stated:
  "\<not> ok \<lparr>status = 500, content_type = Some ''text/plain'', body_text = ''Internal Server Error'',
         parsed = Inl ''Unexpected token I''\<rparr>
   \<and> request (\<lambda>i. Return \<lparr>status = 500, content_type = Some ''text/plain'',
                            body_text = ''Internal Server Error'', parsed = Inl ''Unexpected token I''\<rparr>)
         (Some ''http://localhost:3001'') ''/applications/my'' (Some ''GET'') (Some (JStr ''tok'')) None
       = Throw (Error ''500: Internal Server Error'')
   \<and> spec_error_message 500 (JStr ''Internal Server Error'') \<noteq> ''500: Internal Server Error''
   \<and> CHR 0x22 \<notin> set ''500: Internal Server Error''
   \<and> CHR 0x22 \<in> set (JSON_stringify (JStr ''Internal Server Error''))
   \<and> \<not> ok \<lparr>status = 401, content_type = Some ''application/json'', body_text = [],
           parsed = Inl ''Unexpected end of JSON input''\<rparr>
   \<and> request (\<lambda>i. Return \<lparr>status = 401, content_type = Some ''application/json'', body_text = [],
                            parsed = Inl ''Unexpected end of JSON input''\<rparr>)
         (Some ''http://localhost:3001'') ''/applications/my'' (Some ''GET'') (Some (JStr ''tok'')) None
       = Throw (SyntaxError ''Unexpected end of JSON input'')
   \<and> spec_error_message 401 (JStr []) \<noteq> ''Unexpected end of JSON input''"
  by (simp add: ok_def request_def request_finish_def request_init_def parseJsonOrText_def
        errorFromResponse_def spec_error_message_def show_nat.simps digit_char_def quote_def
        sublist_code)

text \<open>
  C1, amended. For a response that is not 2xx, \<open>request\<close> throws, and what it
  throws is settled by the body. When the body does not parse as JSON and the content
  type declares \<^verbatim>\<open>application/json\<close>, it is the parser's SyntaxError. When the body
  does not parse and JSON is not declared, it is an Error whose message is the status
  code, a colon and a space, and the raw text, unquoted. When the body parses to
  \<open>data\<close>, it is an Error whose message is: the \<^verbatim>\<open>detail\<close> field when \<open>data\<close> is an
  object whose \<^verbatim>\<open>detail\<close> is a string; the status code and the JSON-stringified
  \<open>data\<close> when \<open>data\<close> is an object or an array and \<^verbatim>\<open>detail\<close> is absent or null;
  the status code and the JSON-stringified \<^verbatim>\<open>detail\<close> when that is present and
  neither null nor a string; and the status code and \<^verbatim>\<open>String(data)\<close>, not
  JSON-stringified, for any other \<open>data\<close> (a string, a number, a boolean, null).
\<close>

theorem request_failure_message:
  assumes "fetch (request_init apiBase pth meth tok bdy) = Return resp"
    and "\<not> ok resp"
  shows "(\<forall>m. parsed resp = Inl m
              \<and> sublist ''application/json'' (case content_type resp of None \<Rightarrow> [] | Some c \<Rightarrow> c) \<longrightarrow>
            request fetch apiBase pth meth tok bdy = Throw (SyntaxError m))
       \<and> (\<forall>m. parsed resp = Inl m
              \<and> \<not> sublist ''application/json'' (case content_type resp of None \<Rightarrow> [] | Some c \<Rightarrow> c) \<longrightarrow>
            request fetch apiBase pth meth tok bdy
              = Throw (Error (show_nat (status resp) @ '': '' @ body_text resp)))
       \<and> (\<forall>data. parsed resp = Inr data \<longrightarrow>
            (\<forall>d. get_prop data ''detail'' = Some (JStr d) \<longrightarrow>
               request fetch apiBase pth meth tok bdy = Throw (Error d))
          \<and> (is_object data \<and> get_prop data ''detail'' \<in> {None, Some JNull} \<longrightarrow>
               request fetch apiBase pth meth tok bdy
                 = Throw (Error (show_nat (status resp) @ '': '' @ JSON_stringify data)))
          \<and> (\<forall>d. get_prop data ''detail'' = Some d \<and> d \<noteq> JNull \<and> (\<forall>s. d \<noteq> JStr s) \<longrightarrow>
               request fetch apiBase pth meth tok bdy
                 = Throw (Error (show_nat (status resp) @ '': '' @ JSON_stringify d)))
          \<and> (\<not> is_object data \<longrightarrow>
               request fetch apiBase pth meth tok bdy
                 = Throw (Error (show_nat (status resp) @ '': '' @ String_js data))))"
proof (intro conjI allI impI)
  fix m
  assume "parsed resp = Inl m
       \<and> sublist ''application/json'' (case content_type resp of None \<Rightarrow> [] | Some c \<Rightarrow> c)"
  then show "request fetch apiBase pth meth tok bdy = Throw (SyntaxError m)"
    using assms(1) by (simp add: request_returns request_finish_def parseJsonOrText_def)
next
  fix m
  assume "parsed resp = Inl m
       \<and> \<not> sublist ''application/json'' (case content_type resp of None \<Rightarrow> [] | Some c \<Rightarrow> c)"
  then have "parseJsonOrText resp = Return (JStr (body_text resp))"
    by (simp add: parseJsonOrText_def)
  then show "request fetch apiBase pth meth tok bdy
               = Throw (Error (show_nat (status resp) @ '': '' @ body_text resp))"
    using assms by (simp add: request_returns request_finish_failure error_not_object)
next
  fix data
  assume "parsed resp = Inr data"
  then have "parseJsonOrText resp = Return data"
    by (simp add: parseJsonOrText_def)
  then have thrown:
    "request fetch apiBase pth meth tok bdy = Throw (errorFromResponse (status resp) data)"
    using assms by (simp add: request_returns request_finish_failure)
  {
    fix d
    assume "get_prop data ''detail'' = Some (JStr d)"
    then show "request fetch apiBase pth meth tok bdy = Throw (Error d)"
      unfolding thrown by (simp add: error_detail_string)
  }
  {
    assume "is_object data \<and> get_prop data ''detail'' \<in> {None, Some JNull}"
    then show "request fetch apiBase pth meth tok bdy
                 = Throw (Error (show_nat (status resp) @ '': '' @ JSON_stringify data))"
      unfolding thrown using error_detail_absent [of data] by blast
  }
  {
    fix d
    assume "get_prop data ''detail'' = Some d \<and> d \<noteq> JNull \<and> (\<forall>s. d \<noteq> JStr s)"
    then show "request fetch apiBase pth meth tok bdy
                 = Throw (Error (show_nat (status resp) @ '': '' @ JSON_stringify d))"
      unfolding thrown using error_detail_other [of data d] by blast
  }
  {
    assume "\<not> is_object data"
    then show "request fetch apiBase pth meth tok bdy
                 = Throw (Error (show_nat (status resp) @ '': '' @ String_js data))"
      unfolding thrown by (simp add: error_not_object)
  }
qed

theorem request_failure_message_witness:
  "request (\<lambda>i. Return \<lparr>status = 401, content_type = Some ''application/json'',
                         body_text = JSON_stringify (JObj [(''detail'', JStr ''Invalid token'')]),
                         parsed = Inr (JObj [(''detail'', JStr ''Invalid token'')])\<rparr>)
         (Some ''http://localhost:3001'') ''/auth/me'' (Some ''GET'') (Some (JStr ''tok'')) None
       = Throw (Error ''Invalid token'')
   \<and> request (\<lambda>i. Return \<lparr>status = 404, content_type = Some ''application/json'',
                           body_text = ''[1,2]'', parsed = Inr (JArr [JNum ''1'', JNum ''2''])\<rparr>)
         (Some ''http://localhost:3001'') ''/auth/me'' (Some ''GET'') (Some (JStr ''tok'')) None
       = Throw (Error ''404: [1,2]'')
   \<and> request (\<lambda>i. Return \<lparr>status = 422, content_type = Some ''application/json'',
                           body_text = JSON_stringify (JObj [(''detail'', JArr [JNum ''0.5''])]),
                           parsed = Inr (JObj [(''detail'', JArr [JNum ''0.5''])])\<rparr>)
         (Some ''http://localhost:3001'') ''/auth/me'' (Some ''GET'') (Some (JStr ''tok'')) None
       = Throw (Error ''422: [0.5]'')
   \<and> request (\<lambda>i. Return \<lparr>status = 500, content_type = Some ''application/json'',
                           body_text = ''1e21'', parsed = Inr (JNum ''1e+21'')\<rparr>)
         (Some ''http://localhost:3001'') ''/auth/me'' (Some ''GET'') (Some (JStr ''tok'')) None
       = Throw (Error ''500: 1e+21'')
   \<and> request (\<lambda>i. Return \<lparr>status = 503, content_type = None, body_text = ''Service Unavailable'',
                           parsed = Inl ''Unexpected token S''\<rparr>)
         (Some ''http://localhost:3001'') ''/auth/me'' (Some ''GET'') (Some (JStr ''tok'')) None
       = Throw (Error ''503: Service Unavailable'')
   \<and> request (\<lambda>i. Return \<lparr>status = 502, content_type = Some ''application/json'', body_text = [],
                           parsed = Inl ''Unexpected end of JSON input''\<rparr>)
         (Some ''http://localhost:3001'') ''/auth/me'' (Some ''GET'') (Some (JStr ''tok'')) None
       = Throw (SyntaxError ''Unexpected end of JSON input'')"
proof -
  let ?r1 = "\<lparr>status = 401, content_type = Some ''application/json'',
                 body_text = JSON_stringify (JObj [(''detail'', JStr ''Invalid token'')]),
                 parsed = Inr (JObj [(''detail'', JStr ''Invalid token'')])\<rparr>"
  let ?r2 = "\<lparr>status = 404, content_type = Some ''application/json'',
                 body_text = ''[1,2]'', parsed = Inr (JArr [JNum ''1'', JNum ''2''])\<rparr>"
  let ?r3 = "\<lparr>status = 422, content_type = Some ''application/json'',
                 body_text = JSON_stringify (JObj [(''detail'', JArr [JNum ''0.5''])]),
                 parsed = Inr (JObj [(''detail'', JArr [JNum ''0.5''])])\<rparr>"
  let ?r4 = "\<lparr>status = 500, content_type = Some ''application/json'',
                 body_text = ''1e21'', parsed = Inr (JNum ''1e+21'')\<rparr>"
  let ?r5 = "\<lparr>status = 503, content_type = None, body_text = ''Service Unavailable'',
                 parsed = Inl ''Unexpected token S''\<rparr>"
  let ?r6 = "\<lparr>status = 502, content_type = Some ''application/json'', body_text = [],
                 parsed = Inl ''Unexpected end of JSON input''\<rparr>"
  have n: "\<not> ok ?r1" "\<not> ok ?r2" "\<not> ok ?r3" "\<not> ok ?r4" "\<not> ok ?r5" "\<not> ok ?r6"
    by (simp_all add: ok_def)
  note ev = show_nat.simps digit_char_def
  have "request (\<lambda>i. Return ?r1) (Some ''http://localhost:3001'') ''/auth/me'' (Some ''GET'')
          (Some (JStr ''tok'')) None = Throw (Error ''Invalid token'')"
    using request_failure_message [of "\<lambda>i. Return ?r1" _ _ _ _ _ ?r1, OF refl n(1)] by simp
  moreover have "request (\<lambda>i. Return ?r2) (Some ''http://localhost:3001'') ''/auth/me'' (Some ''GET'')
          (Some (JStr ''tok'')) None = Throw (Error ''404: [1,2]'')"
    using request_failure_message [of "\<lambda>i. Return ?r2" _ _ _ _ _ ?r2, OF refl n(2)]
    by (simp add: ev)
  moreover have "request (\<lambda>i. Return ?r3) (Some ''http://localhost:3001'') ''/auth/me'' (Some ''GET'')
          (Some (JStr ''tok'')) None = Throw (Error ''422: [0.5]'')"
    using request_failure_message [of "\<lambda>i. Return ?r3" _ _ _ _ _ ?r3, OF refl n(3)]
    by (simp add: ev)
  moreover have "request (\<lambda>i. Return ?r4) (Some ''http://localhost:3001'') ''/auth/me'' (Some ''GET'')
          (Some (JStr ''tok'')) None = Throw (Error ''500: 1e+21'')"
    using request_failure_message [of "\<lambda>i. Return ?r4" _ _ _ _ _ ?r4, OF refl n(4)]
    by (simp add: ev)
  moreover have "request (\<lambda>i. Return ?r5) (Some ''http://localhost:3001'') ''/auth/me'' (Some ''GET'')
          (Some (JStr ''tok'')) None = Throw (Error ''503: Service Unavailable'')"
    using request_failure_message [of "\<lambda>i. Return ?r5" _ _ _ _ _ ?r5, OF refl n(5)]
    by (simp add: ev)
  moreover have "request (\<lambda>i. Return ?r6) (Some ''http://localhost:3001'') ''/auth/me'' (Some ''GET'')
          (Some (JStr ''tok'')) None = Throw (SyntaxError ''Unexpected end of JSON input'')"
    using request_failure_message [of "\<lambda>i. Return ?r6" _ _ _ _ _ ?r6, OF refl n(6)]
    by (simp add: sublist_code)
  ultimately show ?thesis by simp
qed

subsection \<open>The admin list query\<close>

text \<open>
  C7. \<^verbatim>\<open>apiAdminListApplications\<close> requests the base followed by
  \<^verbatim>\<open>/admin/applications?\<close> and a query string. Read as a server reads it, that
  query string contains the parameter \<^verbatim>\<open>status\<close> exactly when the status filter is
  truthy (for a string: not empty), then \<^verbatim>\<open>q\<close> exactly when the search string is
  truthy, then always \<^verbatim>\<open>limit\<close> and \<^verbatim>\<open>offset\<close>, each with the value the caller
  gave, printed as \<^verbatim>\<open>String\<close> prints it; \<^verbatim>\<open>limit\<close> is 50 and \<^verbatim>\<open>offset\<close> is 0 when
  the caller leaves them out. No other parameter is in it, whatever characters the
  filter and the search string hold.
\<close>

theorem admin_list_query:
  "\<exists>qs. url (sent apiBase (AdminListApplications tok stat q lim off))
          = normalizeBase apiBase @ ''/admin/applications?'' @ qs
      \<and> parse_query qs =
            (if truthy_val stat then [(''status'', String_val stat)] else [])
          @ (if truthy_val q then [(''q'', String_val q)] else [])
          @ [(''limit'', case lim of None \<Rightarrow> ''50'' | Some v \<Rightarrow> String_js v),
             (''offset'', case off of None \<Rightarrow> ''0'' | Some v \<Rightarrow> String_js v)]
      \<and> (''status'' \<in> fst ` set (parse_query qs)) = truthy_val stat
      \<and> (''q'' \<in> fst ` set (parse_query qs)) = truthy_val q
      \<and> (\<forall>s. stat = Some (JStr s) \<longrightarrow> (''status'' \<in> fst ` set (parse_query qs)) = (s \<noteq> []))
      \<and> (\<forall>s. q = Some (JStr s) \<longrightarrow> (''q'' \<in> fst ` set (parse_query qs)) = (s \<noteq> []))
      \<and> ''limit'' \<in> fst ` set (parse_query qs)
      \<and> ''offset'' \<in> fst ` set (parse_query qs)
      \<and> (lim = None \<longrightarrow> map_of (parse_query qs) ''limit'' = Some ''50'')
      \<and> (off = None \<longrightarrow> map_of (parse_query qs) ''offset'' = Some ''0'')
      \<and> call fetch apiBase (AdminListApplications tok stat q lim off)
          = request_finish (fetch (sent apiBase (AdminListApplications tok stat q lim off)))"
proof -
  define qs where "qs = params_toString (admin_list_params stat q lim off)"
  define ps where "ps = (if truthy_val stat then [(''status'', String_val stat)] else [])
          @ (if truthy_val q then [(''q'', String_val q)] else [])
          @ [(''limit'', case lim of None \<Rightarrow> ''50'' | Some v \<Rightarrow> String_js v),
             (''offset'', case off of None \<Rightarrow> ''0'' | Some v \<Rightarrow> String_js v)]"
  have read: "parse_query qs = ps"
    unfolding qs_def ps_def by (simp only: parse_query_toString admin_list_params_eq)
  have n1: "(''status'' \<in> fst ` set ps) = truthy_val stat"
    and n2: "(''q'' \<in> fst ` set ps) = truthy_val q"
    and n3: "''limit'' \<in> fst ` set ps" and n4: "''offset'' \<in> fst ` set ps"
    unfolding ps_def by auto
  have d1: "lim = None \<longrightarrow> map_of ps ''limit'' = Some ''50''"
    and d2: "off = None \<longrightarrow> map_of ps ''offset'' = Some ''0''"
    unfolding ps_def by simp_all
  have s1: "\<forall>s. stat = Some (JStr s) \<longrightarrow> (''status'' \<in> fst ` set ps) = (s \<noteq> [])"
    unfolding n1 by simp
  have s2: "\<forall>s. q = Some (JStr s) \<longrightarrow> (''q'' \<in> fst ` set ps) = (s \<noteq> [])"
    unfolding n2 by simp
  have u: "url (sent apiBase (AdminListApplications tok stat q lim off))
             = normalizeBase apiBase @ ''/admin/applications?'' @ qs"
    unfolding qs_def by (rule admin_list_url)
  have c: "call fetch apiBase (AdminListApplications tok stat q lim off)
             = request_finish (fetch (sent apiBase (AdminListApplications tok stat q lim off)))"
    by (rule call_sends)
  have "url (sent apiBase (AdminListApplications tok stat q lim off))
          = normalizeBase apiBase @ ''/admin/applications?'' @ qs
      \<and> parse_query qs = ps
      \<and> (''status'' \<in> fst ` set (parse_query qs)) = truthy_val stat
      \<and> (''q'' \<in> fst ` set (parse_query qs)) = truthy_val q
      \<and> (\<forall>s. stat = Some (JStr s) \<longrightarrow> (''status'' \<in> fst ` set (parse_query qs)) = (s \<noteq> []))
      \<and> (\<forall>s. q = Some (JStr s) \<longrightarrow> (''q'' \<in> fst ` set (parse_query qs)) = (s \<noteq> []))
      \<and> ''limit'' \<in> fst ` set (parse_query qs)
      \<and> ''offset'' \<in> fst ` set (parse_query qs)
      \<and> (lim = None \<longrightarrow> map_of (parse_query qs) ''limit'' = Some ''50'')
      \<and> (off = None \<longrightarrow> map_of (parse_query qs) ''offset'' = Some ''0'')
      \<and> call fetch apiBase (AdminListApplications tok stat q lim off)
          = request_finish (fetch (sent apiBase (AdminListApplications tok stat q lim off)))"
    unfolding read
    by (intro conjI u refl n1 n2 n3 n4 d1 d2 s1 s2 c)
  then have found: "url (sent apiBase (AdminListApplications tok stat q lim off))
          = normalizeBase apiBase @ ''/admin/applications?'' @ qs
      \<and> parse_query qs =
            (if truthy_val stat then [(''status'', String_val stat)] else [])
          @ (if truthy_val q then [(''q'', String_val q)] else [])
          @ [(''limit'', case lim of None \<Rightarrow> ''50'' | Some v \<Rightarrow> String_js v),
             (''offset'', case off of None \<Rightarrow> ''0'' | Some v \<Rightarrow> String_js v)]
      \<and> (''status'' \<in> fst ` set (parse_query qs)) = truthy_val stat
      \<and> (''q'' \<in> fst ` set (parse_query qs)) = truthy_val q
      \<and> (\<forall>s. stat = Some (JStr s) \<longrightarrow> (''status'' \<in> fst ` set (parse_query qs)) = (s \<noteq> []))
      \<and> (\<forall>s. q = Some (JStr s) \<longrightarrow> (''q'' \<in> fst ` set (parse_query qs)) = (s \<noteq> []))
      \<and> ''limit'' \<in> fst ` set (parse_query qs)
      \<and> ''offset'' \<in> fst ` set (parse_query qs)
      \<and> (lim = None \<longrightarrow> map_of (parse_query qs) ''limit'' = Some ''50'')
      \<and> (off = None \<longrightarrow> map_of (parse_query qs) ''offset'' = Some ''0'')
      \<and> call fetch apiBase (AdminListApplications tok stat q lim off)
          = request_finish (fetch (sent apiBase (AdminListApplications tok stat q lim off)))"
    unfolding ps_def .
  show ?thesis
    by (rule exI [of _ qs]) (rule found)
qed

theorem admin_list_query_witness:
  "url (sent (Some ''http://localhost:3001'')
          (AdminListApplications (Some (JStr ''tok'')) (Some (JStr ''in_review'')) (Some JNull) None None))
     = ''http://localhost:3001/admin/applications?status=in_review&limit=50&offset=0''
   \<and> parse_query ''status=in_review&limit=50&offset=0''
     = [(''status'', ''in_review''), (''limit'', ''50''), (''offset'', ''0'')]
   \<and> url (sent (Some ''http://localhost:3001'')
          (AdminListApplications (Some (JStr ''tok'')) None (Some (JStr ''a&status=approved''))
             (Some (JNum ''1e+21'')) None))
     = ''http://localhost:3001/admin/applications?q=a%26status%3Dapproved&limit=1e%2B21&offset=0''
   \<and> parse_query ''q=a%26status%3Dapproved&limit=1e%2B21&offset=0''
     = [(''q'', ''a&status=approved''), (''limit'', ''1e+21''), (''offset'', ''0'')]
   \<and> ''status'' \<notin> fst ` set (parse_query ''q=a%26status%3Dapproved&limit=1e%2B21&offset=0'')"
proof -
  note enc = normalizeBase_def params_toString_def admin_list_params_eq form_encode_def
             form_byte_def hex_upper_def
  have u1: "url (sent (Some ''http://localhost:3001'')
          (AdminListApplications (Some (JStr ''tok'')) (Some (JStr ''in_review'')) (Some JNull) None None))
     = ''http://localhost:3001/admin/applications?'' @ ''status=in_review&limit=50&offset=0''"
    by (simp add: sent_url enc)
  have u2: "url (sent (Some ''http://localhost:3001'')
          (AdminListApplications (Some (JStr ''tok'')) None (Some (JStr ''a&status=approved''))
             (Some (JNum ''1e+21'')) None))
     = ''http://localhost:3001/admin/applications?''
       @ ''q=a%26status%3Dapproved&limit=1e%2B21&offset=0''"
    by (simp add: sent_url enc)
  have b: "normalizeBase (Some ''http://localhost:3001'') @ ''/admin/applications?''
             = ''http://localhost:3001/admin/applications?''"
    by (simp add: normalizeBase_def)
  obtain qs1 where q1: "''http://localhost:3001/admin/applications?'' @ ''status=in_review&limit=50&offset=0''
                          = ''http://localhost:3001/admin/applications?'' @ qs1"
    and p1: "parse_query qs1 = [(''status'', ''in_review''), (''limit'', ''50''), (''offset'', ''0'')]"
    using admin_list_query [of "Some ''http://localhost:3001''" "Some (JStr ''tok'')"
            "Some (JStr ''in_review'')" "Some JNull" None None]
    unfolding u1 append_assoc [symmetric] b by auto
  obtain qs2 where q2: "''http://localhost:3001/admin/applications?''
                          @ ''q=a%26status%3Dapproved&limit=1e%2B21&offset=0''
                          = ''http://localhost:3001/admin/applications?'' @ qs2"
    and p2: "parse_query qs2 = [(''q'', ''a&status=approved''), (''limit'', ''1e+21''), (''offset'', ''0'')]"
    using admin_list_query [of "Some ''http://localhost:3001''" "Some (JStr ''tok'')"
            None "Some (JStr ''a&status=approved'')" "Some (JNum ''1e+21'')" None]
    unfolding u2 append_assoc [symmetric] b by auto
  have e1: "qs1 = ''status=in_review&limit=50&offset=0''"
    using q1 by (simp only: same_append_eq)
  have e2: "qs2 = ''q=a%26status%3Dapproved&limit=1e%2B21&offset=0''"
    using q2 by (simp only: same_append_eq)
  show ?thesis
    using u1 u2 p1 p2 unfolding e1 e2 by simp
qed

subsection \<open>Headers and bodies of the nine operations\<close>

text \<open>
  C8, as the specification states it, does not hold: login passes no token, so its
  request has no Authorization header, and fetch-current-user is a GET without a
  body.
\<close>

theorem login_sends_no_bearer_me_no_body:
  "map_of (headers (sent (Some ''http://localhost:3001'')
                      (Login (Some (JStr ''student1@example.com'')) (Some (JStr ''password123'')))))
      ''Authorization'' = None
   \<and> body (sent (Some ''http://localhost:3001'') (Me (Some (JStr ''tok'')))) = None"
  by (simp add: request_init_def)

text \<open>
  C8, amended. Every request of the nine operations declares the content type
  \<^verbatim>\<open>application/json\<close>. A body is sent by register, login, create-application and
  admin-change-status only, and it is a JSON-stringified object. The Authorization
  header is \<^verbatim>\<open>Bearer\<close> and the token when the operation passes a truthy token, and
  is absent otherwise; register and login pass none.
\<close>

theorem requests_headers_and_bodies:
  "map_of (headers (sent apiBase c)) ''Content-Type'' = Some ''application/json''
   \<and> (body (sent apiBase c) \<noteq> None) = has_body c
   \<and> (has_body c \<longrightarrow> (\<exists>kvs. body (sent apiBase c) = Some (JSON_stringify (JObj kvs))))
   \<and> map_of (headers (sent apiBase c)) ''Authorization''
       = (if truthy_val (call_token c) then Some (''Bearer '' @ String_val (call_token c)) else None)
   \<and> call_token (Register e p f l) = None
   \<and> call_token (Login e p) = None
   \<and> call fetch apiBase c = request_finish (fetch (sent apiBase c))"
  using sent_content_type sent_body sent_body_is_object sent_authorization call_sends
  by simp

theorem requests_headers_and_bodies_witness:
  "has_body (CreateApplication (Some (JStr ''tok'')) (Some (JStr ''CS'')) (Some (JStr ''Fall'')))
   \<and> body (sent (Some ''http://localhost:3001'')
              (CreateApplication (Some (JStr ''tok'')) (Some (JStr ''CS'')) (Some (JStr ''Fall''))))
       = Some (JSON_stringify (JObj [(''program'', JStr ''CS''), (''term'', JStr ''Fall'')]))
   \<and> map_of (headers (sent (Some ''http://localhost:3001'')
              (CreateApplication (Some (JStr ''tok'')) (Some (JStr ''CS'')) (Some (JStr ''Fall'')))))
         ''Authorization'' = Some ''Bearer tok''
   \<and> map_of (headers (sent (Some ''http://localhost:3001'')
              (CreateApplication (Some (JStr ''tok'')) (Some (JStr ''CS'')) (Some (JStr ''Fall'')))))
         ''Content-Type'' = Some ''application/json''"
proof -
  note h = requests_headers_and_bodies
             [of "Some ''http://localhost:3001''"
                 "CreateApplication (Some (JStr ''tok'')) (Some (JStr ''CS'')) (Some (JStr ''Fall''))"]
  have b: "body (sent (Some ''http://localhost:3001'')
              (CreateApplication (Some (JStr ''tok'')) (Some (JStr ''CS'')) (Some (JStr ''Fall''))))
       = Some (JSON_stringify (JObj [(''program'', JStr ''CS''), (''term'', JStr ''Fall'')]))"
    by (simp add: sent_body_object, simp add: object_literal_def)
  show ?thesis using h b by simp
qed

section \<open>Properties of the view layer\<close>

subsection \<open>Helper facts\<close>

lemma settle_keeps:
  "token (settle s) = token s" "sap_token (settle s) = sap_token s" "me (settle s) = me s"
  "loadingMe (settle s) = loadingMe s"
  by (simp_all add: settle_def split: outcome.splits view.splits)

lemma settle_shown:
  "AppShell s = Return v \<Longrightarrow> (\<forall>r. v \<noteq> Navigate r) \<Longrightarrow> settle s = s"
  by (cases v) (simp_all add: settle_def)

lemma settle_stable: "AppShell (settle s) \<noteq> Return (Navigate r)"
proof (cases "AppShell s")
  case (Throw e)
  then show ?thesis by (simp add: settle_def)
next
  case (Return v)
  show ?thesis
  proof (cases "\<exists>q. v = Navigate q")
    case False
    then have "settle s = s" using Return by (cases v) (simp_all add: settle_def)
    then show ?thesis using Return False by auto
  next
    case True
    then obtain q where v: "v = Navigate q" by blast
    have st: "settle s = s\<lparr>pathname := q\<rparr>" using Return v by (simp add: settle_def)
    obtain isStudent isAdmin where i: "js_includes (roles_of (me s)) ''student'' = Return isStudent"
      "js_includes (roles_of (me s)) ''admin'' = Return isAdmin"
      using Return by (auto simp: AppShell_def Let_def split: outcome.splits)
    show ?thesis
      using Return v i unfolding st
      by (cases "pathname s"; cases "truthy_val (token s)"; cases isAdmin; cases isStudent)
         (simp_all add: AppShell_def RequireAuth_def RequireRole_def)
  qed
qed

lemma remount_sh: "sh (remount a) = sh a"
  by (simp add: remount_def Let_def)

lemma step_sh: "sh (step apiBase e a) = settle (sh (handle apiBase e a))"
  by (simp add: step_def Let_def remount_sh)

lemma step_session:
  "token (sh (step b e a)) = token (sh (handle b e a))"
  "sap_token (sh (step b e a)) = sap_token (sh (handle b e a))"
  "me (sh (step b e a)) = me (sh (handle b e a))"
  by (simp_all add: step_sh settle_keeps)

lemma step_student:
  "AppShell (settle (sh (handle apiBase e a))) = Return StudentDashboard \<Longrightarrow>
   studentDashboard (step apiBase e a) = studentDashboard (handle apiBase e a)"
  by (simp add: step_def Let_def remount_def)

lemma list_failure_state:
  "apiListMyApplications f (Some apiBase) tok = Throw e \<Longrightarrow>
   StudentDashboard_refresh f apiBase tok d
     = d\<lparr>error := message_or e ''Failed to load applications'', info := [], busy := False\<rparr>"
  by (simp add: StudentDashboard_refresh_def)

lemma refreshMe_run_cases:
  "\<not> truthy_val nt \<Longrightarrow> refreshMe_run f b nt s = s\<lparr>me := JNull\<rparr>"
  "truthy_val nt \<Longrightarrow> apiMe f (Some b) nt = Return u \<Longrightarrow>
     refreshMe_run f b nt s = s\<lparr>me := u, loadingMe := False\<rparr>"
  "truthy_val nt \<Longrightarrow> apiMe f (Some b) nt = Throw err \<Longrightarrow>
     refreshMe_run f b nt s
       = s\<lparr>me := JNull, token := Some (JStr []), sap_token := None, loadingMe := False\<rparr>"
  by (simp_all add: refreshMe_run_def)

lemma signed_out_view:
  "\<not> truthy_val (token s) \<Longrightarrow> me s = JNull \<Longrightarrow>
   AppShell (settle s)
     = Return (case pathname s of PathHome \<Rightarrow> Home | PathRegister \<Rightarrow> RegisterPage
               | PathOther \<Rightarrow> NotFound | _ \<Rightarrow> LoginPage)"
  by (cases "pathname s")
     (simp_all add: settle_def AppShell_def roles_of_def RequireAuth_def RequireRole_def)

lemma logout_step:
  "token (sh (step b Logout a)) = Some (JStr [])"
  "sap_token (sh (step b Logout a)) = None"
  "AppShell (sh (step b Logout a)) = Return LoginPage"
proof -
  show "token (sh (step b Logout a)) = Some (JStr [])" "sap_token (sh (step b Logout a)) = None"
    by (simp_all add: step_session onLogout_def)
  have "AppShell (settle (onLogout (sh a))) = Return LoginPage"
    using signed_out_view [of "onLogout (sh a)"] by (simp add: onLogout_def)
  then show "AppShell (sh (step b Logout a)) = Return LoginPage"
    by (simp add: step_sh)
qed

lemma refresh_failure_step:
  assumes "truthy_val (token (sh a))" and "apiMe f (Some b) (token (sh a)) = Throw err"
  shows "token (sh (step b (RefreshSession f) a)) = Some (JStr [])"
    "sap_token (sh (step b (RefreshSession f) a)) = None"
    "me (sh (step b (RefreshSession f) a)) = JNull"
    "AppShell (sh (step b (RefreshSession f) a))
       = Return (case pathname (sh a) of PathHome \<Rightarrow> Home | PathRegister \<Rightarrow> RegisterPage
                 | PathOther \<Rightarrow> NotFound | _ \<Rightarrow> LoginPage)"
proof -
  have h: "refreshMe f b None (sh a)
             = (sh a)\<lparr>me := JNull, token := Some (JStr []), sap_token := None, loadingMe := False\<rparr>"
    using assms by (simp add: refreshMe_def refreshMe_run_cases(3))
  show "token (sh (step b (RefreshSession f) a)) = Some (JStr [])"
    "sap_token (sh (step b (RefreshSession f) a)) = None"
    "me (sh (step b (RefreshSession f) a)) = JNull"
    by (simp_all add: step_session h)
  show "AppShell (sh (step b (RefreshSession f) a))
       = Return (case pathname (sh a) of PathHome \<Rightarrow> Home | PathRegister \<Rightarrow> RegisterPage
                 | PathOther \<Rightarrow> NotFound | _ \<Rightarrow> LoginPage)"
    using signed_out_view
            [of "(sh a)\<lparr>me := JNull, token := Some (JStr []), sap_token := None, loadingMe := False\<rparr>"]
    by (simp add: step_sh h)
qed

lemma onAuthed_success:
  assumes "truthy_val t" and "apiMe f (Some b) t = Return u"
  shows "onAuthed f b t s
           = s\<lparr>token := t, sap_token := Some (String_val t), me := u, loadingMe := False,
                pathname := PathStudent\<rparr>"
proof -
  obtain v where t: "t = Some v" using assms(1) by (cases t) simp_all
  show ?thesis
    using assms unfolding t
    by (simp add: onAuthed_def refreshMe_run_cases(2))
qed

lemma login_calls_onAuthed:
  "apiLogin f (Some b) (Some (JStr (email p))) (Some (JStr (password p))) = Return data \<Longrightarrow>
   property_of data ''access_token'' = Return t \<Longrightarrow>
   fst (LoginPage_submit f b (s, p)) = onAuthed f b t s"
  by (simp add: LoginPage_submit_def)

lemma register_calls_onAuthed:
  "apiRegister f (Some b) (Some (JStr (email p))) (Some (JStr (password p)))
     (Some (JStr (firstName p))) (Some (JStr (lastName p))) = Return data \<Longrightarrow>
   property_of data ''access_token'' = Return t \<Longrightarrow>
   fst (RegisterPage_submit f b (s, p)) = onAuthed f b t s"
  by (simp add: RegisterPage_submit_def)

lemma login_success_step:
  assumes "apiLogin f (Some b) (Some (JStr (email (loginPage a))))
             (Some (JStr (password (loginPage a)))) = Return data"
    and "property_of data ''access_token'' = Return t"
    and "truthy_val t" and "apiMe f (Some b) t = Return u"
  shows "token (sh (step b (SubmitLogin f) a)) = t"
    "sap_token (sh (step b (SubmitLogin f) a)) = Some (String_val t)"
  using login_calls_onAuthed [OF assms(1,2)] onAuthed_success [OF assms(3,4)]
  by (simp_all add: step_session Let_def)

lemma register_success_step:
  assumes "apiRegister f (Some b) (Some (JStr (email (registerPage a))))
             (Some (JStr (password (registerPage a))))
             (Some (JStr (firstName (registerPage a))))
             (Some (JStr (lastName (registerPage a)))) = Return data"
    and "property_of data ''access_token'' = Return t"
    and "truthy_val t" and "apiMe f (Some b) t = Return u"
  shows "token (sh (step b (SubmitRegister f) a)) = t"
    "sap_token (sh (step b (SubmitRegister f) a)) = Some (String_val t)"
  using register_calls_onAuthed [OF assms(1,2)] onAuthed_success [OF assms(3,4)]
  by (simp_all add: step_session Let_def)

lemma handle_session_only:
  assumes "token (sh (handle b e a)) \<noteq> token (sh a) \<or> sap_token (sh (handle b e a)) \<noteq> sap_token (sh a)"
  shows "case e of
       SubmitLogin f \<Rightarrow>
         (\<exists>data t. apiLogin f (Some b) (Some (JStr (email (loginPage a))))
                      (Some (JStr (password (loginPage a)))) = Return data
                    \<and> property_of data ''access_token'' = Return t)
     | SubmitRegister f \<Rightarrow>
         (\<exists>data t. apiRegister f (Some b) (Some (JStr (email (registerPage a))))
                      (Some (JStr (password (registerPage a))))
                      (Some (JStr (firstName (registerPage a))))
                      (Some (JStr (lastName (registerPage a)))) = Return data
                    \<and> property_of data ''access_token'' = Return t)
     | RefreshSession f \<Rightarrow>
         truthy_val (token (sh a)) \<and> (\<exists>err. apiMe f (Some b) (token (sh a)) = Throw err)
     | Logout \<Rightarrow> True
     | _ \<Rightarrow> False"
  using assms
  by (cases e)
     (auto simp: LoginPage_submit_def RegisterPage_submit_def refreshMe_def refreshMe_run_def
        Let_def split: outcome.splits option.splits if_splits)

lemma accepting_login:
  "apiLogin accepting (Some ''http://localhost:3001'') e p = Return token_response"
  by (simp add: apiLogin_def request_def request_init_def normalizeBase_def accepting_def
        request_finish_def parseJsonOrText_def ok_def)

lemma accepting_me:
  "apiMe accepting (Some ''http://localhost:3001'') t = Return user_record"
  by (simp add: apiMe_def request_def request_init_def normalizeBase_def accepting_def
        request_finish_def parseJsonOrText_def ok_def)

lemma bearer_header:
  "t \<noteq> [] \<Longrightarrow>
   map_of (headers (request_init base pth meth (Some (JStr t)) bdy)) ''Authorization''
     = Some (''Bearer '' @ t)"
  by (simp add: sent_headers)

lemma request_bearer_cong:
  assumes "t \<noteq> []"
    and "\<forall>i. map_of (headers i) ''Authorization'' = Some (''Bearer '' @ t) \<longrightarrow> f i = g i"
  shows "request f base pth meth (Some (JStr t)) bdy = request g base pth meth (Some (JStr t)) bdy"
  using assms bearer_header [of t base pth meth bdy] by (simp add: request_def)

lemma handlers_bearer_cong:
  assumes "t \<noteq> []"
    and "\<forall>i. map_of (headers i) ''Authorization'' = Some (''Bearer '' @ t) \<longrightarrow> f i = g i"
  shows "refreshMe_run f b (Some (JStr t)) s = refreshMe_run g b (Some (JStr t)) s"
    "StudentDashboard_refresh f b (Some (JStr t)) d = StudentDashboard_refresh g b (Some (JStr t)) d"
    "createDraft f b (Some (JStr t)) d = createDraft g b (Some (JStr t)) d"
    "submitApp f b (Some (JStr t)) i d = submitApp g b (Some (JStr t)) i d"
    "withdrawApp f b (Some (JStr t)) i d = withdrawApp g b (Some (JStr t)) i d"
    "AdminDashboard_refresh f b (Some (JStr t)) ad = AdminDashboard_refresh g b (Some (JStr t)) ad"
    "changeStatus f b (Some (JStr t)) i to ad = changeStatus g b (Some (JStr t)) i to ad"
  by (simp_all add: refreshMe_run_def StudentDashboard_refresh_def createDraft_def submitApp_def
        withdrawApp_def AdminDashboard_refresh_def changeStatus_def
        apiMe_def apiListMyApplications_def apiCreateApplication_def apiSubmitApplication_def
        apiWithdrawApplication_def apiAdminListApplications_def apiAdminChangeStatus_def
        Let_def request_bearer_cong [OF assms] cong: outcome.case_cong)

lemma signed_in_hides_forms:
  "truthy_val (token s) \<Longrightarrow> AppShell s \<noteq> Return LoginPage \<and> AppShell s \<noteq> Return RegisterPage"
  by (auto simp: AppShell_def RequireAuth_def RequireRole_def Let_def
           split: outcome.splits route.splits if_splits)

lemma access_token_read:
  "get_prop data ''access_token'' = Some v \<Longrightarrow> property_of data ''access_token'' = Return (Some v)"
  by (cases data) simp_all

lemma onAuthed_failure:
  assumes "truthy_val t" and "apiMe f (Some b) t = Throw err"
  shows "onAuthed f b t s
           = s\<lparr>token := Some (JStr []), sap_token := None, me := JNull, loadingMe := False,
                pathname := PathStudent\<rparr>"
proof -
  obtain v where t: "t = Some v" using assms(1) by (cases t) simp_all
  show ?thesis
    using assms unfolding t
    by (simp add: onAuthed_def refreshMe_run_cases(3))
qed

lemma onAuthed_falsy:
  assumes "\<not> truthy_val t" and "\<not> truthy_val (token s)"
  shows "onAuthed f b t s
           = s\<lparr>token := t, sap_token := Some (String_val t), me := JNull, pathname := PathStudent\<rparr>"
  using assms by (cases t) (simp_all add: onAuthed_def refreshMe_run_cases(1))

lemma signed_out_path:
  "\<not> truthy_val (token s) \<Longrightarrow> me s = JNull \<Longrightarrow>
   pathname (settle s)
     = (case pathname s of PathStudent \<Rightarrow> PathLogin | PathAdmin \<Rightarrow> PathLogin | p \<Rightarrow> p)"
  by (cases "pathname s")
     (simp_all add: settle_def AppShell_def roles_of_def RequireAuth_def RequireRole_def)

lemma guarded_stays:
  assumes "truthy_val (token s)" and "pathname s = PathStudent \<or> pathname s = PathAdmin"
  shows "pathname (settle s) = pathname s"
proof (cases "AppShell s")
  case (Throw e)
  then show ?thesis by (simp add: settle_def)
next
  case (Return v)
  have "\<forall>r. v \<noteq> Navigate r"
    using Return assms
    by (auto simp: AppShell_def RequireAuth_def RequireRole_def Let_def split: outcome.splits if_splits)
  then show ?thesis using settle_shown [OF Return] by simp
qed

lemma signed_in_settled:
  assumes "truthy_val (token s)" and "AppShell s = Return v"
  shows "pathname (settle s) \<noteq> PathLogin \<and> pathname (settle s) \<noteq> PathRegister"
proof (cases "pathname s = PathLogin \<or> pathname s = PathRegister")
  case True
  then obtain r where "v = Navigate r" "r = PathStudent \<or> r = PathAdmin"
    using assms
    by (auto simp: AppShell_def Let_def split: outcome.splits if_splits)
  then show ?thesis using assms(2) by (auto simp: settle_def)
next
  case False
  have "settle s = s \<or> (\<exists>r. v = Navigate r)"
    using settle_shown [OF assms(2)] by blast
  moreover have "\<forall>r. v \<noteq> Navigate r"
    using False assms
    by (cases "pathname s")
       (auto simp: AppShell_def RequireAuth_def RequireRole_def Let_def split: outcome.splits if_splits)
  ultimately show ?thesis using False by auto
qed

lemma ends_on_login:
  assumes "sh (handle b e a) = x" and "\<not> truthy_val (token x)" and "me x = JNull"
    and "pathname x = PathStudent \<or> pathname x = PathAdmin \<or> pathname x = PathLogin"
  shows "token (sh (step b e a)) = token x \<and> sap_token (sh (step b e a)) = sap_token x
       \<and> me (sh (step b e a)) = JNull \<and> pathname (sh (step b e a)) = PathLogin
       \<and> AppShell (sh (step b e a)) = Return LoginPage"
  using assms signed_out_view [of x] signed_out_path [of x]
  by (auto simp: step_sh settle_keeps)

lemma stays_signed_in:
  assumes "sh (handle b e a) = x" and "truthy_val (token x)" and "pathname x = PathStudent"
  shows "token (sh (step b e a)) = token x \<and> sap_token (sh (step b e a)) = sap_token x
       \<and> me (sh (step b e a)) = me x \<and> pathname (sh (step b e a)) = PathStudent"
  using assms guarded_stays [of x] by (simp add: step_sh settle_keeps)

lemma login_handled:
  "apiLogin g (Some b) (Some (JStr (email (loginPage a))))
     (Some (JStr (password (loginPage a)))) = Return data \<Longrightarrow>
   property_of data ''access_token'' = Return t \<Longrightarrow>
   sh (handle b (SubmitLogin g) a) = onAuthed g b t (sh a)"
  using login_calls_onAuthed [of g b "loginPage a" data t "sh a"] by (simp add: Let_def)

lemma register_handled:
  "apiRegister g (Some b) (Some (JStr (email (registerPage a))))
     (Some (JStr (password (registerPage a))))
     (Some (JStr (firstName (registerPage a))))
     (Some (JStr (lastName (registerPage a)))) = Return data \<Longrightarrow>
   property_of data ''access_token'' = Return t \<Longrightarrow>
   sh (handle b (SubmitRegister g) a) = onAuthed g b t (sh a)"
  using register_calls_onAuthed [of g b "registerPage a" data t "sh a"] by (simp add: Let_def)

lemma logout_path: "pathname (sh (step b Logout a)) = PathLogin"
  using ends_on_login [of b Logout a "onLogout (sh a)"] by (simp add: onLogout_def)

lemma refresh_failure_routes:
  assumes "truthy_val (token (sh a))" and "apiMe g (Some b) (token (sh a)) = Throw err"
  shows "pathname (sh (step b (RefreshSession g) a))
           = (case pathname (sh a) of PathStudent \<Rightarrow> PathLogin | PathAdmin \<Rightarrow> PathLogin | p \<Rightarrow> p)"
proof -
  have h: "refreshMe g b None (sh a)
             = (sh a)\<lparr>me := JNull, token := Some (JStr []), sap_token := None, loadingMe := False\<rparr>"
    using assms by (simp add: refreshMe_def refreshMe_run_cases(3))
  show ?thesis
    using signed_out_path
            [of "(sh a)\<lparr>me := JNull, token := Some (JStr []), sap_token := None, loadingMe := False\<rparr>"]
    by (simp add: step_sh h)
qed

lemma accepting_register:
  "apiRegister accepting (Some ''http://localhost:3001'') e p f l = Return token_response"
  by (simp add: apiRegister_def request_def request_init_def normalizeBase_def accepting_def
        request_finish_def parseJsonOrText_def ok_def)

lemma signin_only_login:
  "apiLogin signin_only (Some ''http://localhost:3001'') e p = Return token_response"
  "apiRegister signin_only (Some ''http://localhost:3001'') e p f l = Return token_response"
  by (simp_all add: apiLogin_def apiRegister_def request_def request_init_def normalizeBase_def
        signin_only_def accepting_def request_finish_def parseJsonOrText_def ok_def)

lemma signin_only_me:
  "apiMe signin_only (Some ''http://localhost:3001'') t = Throw (Error ''Invalid token'')"
  by (simp add: apiMe_def request_def request_init_def normalizeBase_def signin_only_def
        rejecting_def request_finish_def parseJsonOrText_def ok_def errorFromResponse_def)

lemma tokenless_login:
  "apiLogin tokenless (Some ''http://localhost:3001'') e p = Return (JObj [])"
  "apiRegister tokenless (Some ''http://localhost:3001'') e p f l = Return (JObj [])"
  by (simp_all add: apiLogin_def apiRegister_def request_def tokenless_def
        request_finish_def parseJsonOrText_def ok_def)



subsection \<open>Route guards\<close>



subsection \<open>Action buttons\<close>

text \<open>
  C10. Each row button is enabled as a function of the busy flag and the row's
  status alone: Submit iff not busy and the status is draft or needs_info; Withdraw
  iff not busy and the status is none of approved, rejected, withdrawn; In review iff
  not busy and the status is submitted or needs_info; Needs info iff not busy and the
  status is submitted or in_review; Approve iff not busy and the status is in_review;
  Reject iff not busy and the status is submitted, in_review, needs_info or draft.
  The second half reads the same off the seven statuses.
\<close>

theorem button_enabling:
  "(\<not> submit_disabled bsy st) = (\<not> bsy \<and> st \<in> {Some (JStr ''draft''), Some (JStr ''needs_info'')})
   \<and> (\<not> withdraw_disabled bsy st)
        = (\<not> bsy \<and> st \<notin> {Some (JStr ''approved''), Some (JStr ''rejected''), Some (JStr ''withdrawn'')})
   \<and> (\<not> in_review_disabled bsy st)
        = (\<not> bsy \<and> st \<in> {Some (JStr ''submitted''), Some (JStr ''needs_info'')})
   \<and> (\<not> needs_info_disabled bsy st)
        = (\<not> bsy \<and> st \<in> {Some (JStr ''submitted''), Some (JStr ''in_review'')})
   \<and> (\<not> approve_disabled bsy st) = (\<not> bsy \<and> st = Some (JStr ''in_review''))
   \<and> (\<not> reject_disabled bsy st)
        = (\<not> bsy \<and> st \<in> {Some (JStr ''submitted''), Some (JStr ''in_review''),
                            Some (JStr ''needs_info''), Some (JStr ''draft'')})
   \<and> (\<not> submit_disabled bsy (Some (JStr (status_name x)))) = (\<not> bsy \<and> x \<in> {Draft, Needs_info})
   \<and> (\<not> withdraw_disabled bsy (Some (JStr (status_name x))))
        = (\<not> bsy \<and> x \<in> {Draft, Submitted, In_review, Needs_info})
   \<and> (\<not> in_review_disabled bsy (Some (JStr (status_name x)))) = (\<not> bsy \<and> x \<in> {Submitted, Needs_info})
   \<and> (\<not> needs_info_disabled bsy (Some (JStr (status_name x)))) = (\<not> bsy \<and> x \<in> {Submitted, In_review})
   \<and> (\<not> approve_disabled bsy (Some (JStr (status_name x)))) = (\<not> bsy \<and> x = In_review)
   \<and> (\<not> reject_disabled bsy (Some (JStr (status_name x))))
        = (\<not> bsy \<and> x \<in> {Submitted, In_review, Needs_info, Draft})"
  by (cases x)
     (auto simp: submit_disabled_def withdraw_disabled_def in_review_disabled_def
        needs_info_disabled_def approve_disabled_def reject_disabled_def status_in_def)

theorem button_enabling_witness:
  "\<not> submit_disabled False (Some (JStr ''draft''))
   \<and> submit_disabled True (Some (JStr ''draft''))
   \<and> submit_disabled False (Some (JStr ''submitted''))
   \<and> \<not> withdraw_disabled False (Some (JStr ''submitted''))
   \<and> withdraw_disabled False (Some (JStr ''approved''))
   \<and> \<not> approve_disabled False (Some (JStr (status_name In_review)))
   \<and> reject_disabled False (Some (JStr (status_name Approved)))"
  using button_enabling [of False "Some (JStr ''draft'')" Draft]
        button_enabling [of True "Some (JStr ''draft'')" Draft]
        button_enabling [of False "Some (JStr ''submitted'')" In_review]
        button_enabling [of False "Some (JStr ''approved'')" Approved]
  by simp

subsection \<open>A failed list of the student's applications\<close>

text \<open>
  C3, as the specification states it, does not hold. With the expired token the
  backend rejects list-own-applications with status 401; after the dashboard's
  refresh the token is still in the state and in local storage, the location is still
  \<^verbatim>\<open>/student\<close>, the dashboard is still shown, and the message \<^verbatim>\<open>Invalid token\<close>
  appears in it.
\<close>

theorem student_refresh_keeps_session:
  "AppShell (sh (expired_session PathStudent)) = Return StudentDashboard
   \<and> apiListMyApplications rejecting (Some ''http://localhost:3001'')
        (token (sh (expired_session PathStudent))) = Throw (Error ''Invalid token'')
   \<and> token (sh (step ''http://localhost:3001'' (StudentRefresh rejecting) (expired_session PathStudent)))
        = Some (JStr ''expired'')
   \<and> sap_token (sh (step ''http://localhost:3001'' (StudentRefresh rejecting) (expired_session PathStudent)))
        = Some ''expired''
   \<and> pathname (sh (step ''http://localhost:3001'' (StudentRefresh rejecting) (expired_session PathStudent)))
        = PathStudent
   \<and> AppShell (sh (step ''http://localhost:3001'' (StudentRefresh rejecting) (expired_session PathStudent)))
        = Return StudentDashboard
   \<and> error (studentDashboard
        (step ''http://localhost:3001'' (StudentRefresh rejecting) (expired_session PathStudent)))
        = ''Invalid token''"
proof -
  have v: "AppShell (sh (expired_session PathStudent)) = Return StudentDashboard"
    by (simp add: expired_session_def AppShell_def roles_of_def RequireAuth_def RequireRole_def)
  have t: "apiListMyApplications rejecting (Some ''http://localhost:3001'')
        (token (sh (expired_session PathStudent))) = Throw (Error ''Invalid token'')"
    by (simp add: apiListMyApplications_def request_def rejecting_def request_finish_def
          parseJsonOrText_def ok_def errorFromResponse_def)
  have st: "settle (sh (expired_session PathStudent)) = sh (expired_session PathStudent)"
    using settle_shown [OF v] by simp
  have s: "sh (step ''http://localhost:3001'' (StudentRefresh rejecting) (expired_session PathStudent))
             = sh (expired_session PathStudent)"
    by (simp add: step_sh st)
  have d: "studentDashboard (step ''http://localhost:3001'' (StudentRefresh rejecting) (expired_session PathStudent))
             = studentDashboard (handle ''http://localhost:3001'' (StudentRefresh rejecting) (expired_session PathStudent))"
    by (rule step_student) (simp add: st v)
  have e: "error (studentDashboard (handle ''http://localhost:3001'' (StudentRefresh rejecting) (expired_session PathStudent)))
             = ''Invalid token''"
    using t by (simp add: list_failure_state message_or_def)
  show ?thesis
    unfolding s d using v t e by (simp add: expired_session_def)
qed

text \<open>
  C3, amended. When list-own-applications throws during the student dashboard's
  refresh, the token, the local storage entry and the current user are unchanged.
  When the dashboard was shown, the whole shell is unchanged, location included, the
  dashboard stays, and its error cell holds the error's message (or
  \<^verbatim>\<open>Failed to load applications\<close> when the message is empty).
\<close>

theorem student_refresh_failure:
  assumes "apiListMyApplications f (Some apiBase) (token (sh a)) = Throw e"
  shows "token (sh (step apiBase (StudentRefresh f) a)) = token (sh a)
       \<and> sap_token (sh (step apiBase (StudentRefresh f) a)) = sap_token (sh a)
       \<and> me (sh (step apiBase (StudentRefresh f) a)) = me (sh a)
       \<and> (AppShell (sh a) = Return StudentDashboard \<longrightarrow>
            sh (step apiBase (StudentRefresh f) a) = sh a
            \<and> AppShell (sh (step apiBase (StudentRefresh f) a)) = Return StudentDashboard
            \<and> studentDashboard (step apiBase (StudentRefresh f) a)
                = (studentDashboard a)\<lparr>error := message_or e ''Failed to load applications'',
                                         info := [], busy := False\<rparr>)"
proof -
  have h: "sh (handle apiBase (StudentRefresh f) a) = sh a" by simp
  have keep: "token (sh (step apiBase (StudentRefresh f) a)) = token (sh a)"
    "sap_token (sh (step apiBase (StudentRefresh f) a)) = sap_token (sh a)"
    "me (sh (step apiBase (StudentRefresh f) a)) = me (sh a)"
    by (simp_all only: step_sh h settle_keeps)
  have shown: "sh (step apiBase (StudentRefresh f) a) = sh a
       \<and> AppShell (sh (step apiBase (StudentRefresh f) a)) = Return StudentDashboard
       \<and> studentDashboard (step apiBase (StudentRefresh f) a)
           = (studentDashboard a)\<lparr>error := message_or e ''Failed to load applications'',
                                    info := [], busy := False\<rparr>"
    if v: "AppShell (sh a) = Return StudentDashboard"
  proof -
    have st: "settle (sh a) = sh a" using settle_shown [OF v] by simp
    have s1: "sh (step apiBase (StudentRefresh f) a) = sh a"
      by (simp only: step_sh h st)
    have "studentDashboard (step apiBase (StudentRefresh f) a)
            = studentDashboard (handle apiBase (StudentRefresh f) a)"
      by (rule step_student) (simp only: h st v)
    then show ?thesis using s1 v assms by (simp add: list_failure_state)
  qed
  show ?thesis using keep shown by blast
qed

theorem student_refresh_failure_witness:
  "apiListMyApplications rejecting (Some ''http://localhost:3001'')
        (token (sh (expired_session PathStudent))) = Throw (Error ''Invalid token'')
   \<and> AppShell (sh (expired_session PathStudent)) = Return StudentDashboard
   \<and> sh (step ''http://localhost:3001'' (StudentRefresh rejecting) (expired_session PathStudent))
        = sh (expired_session PathStudent)
   \<and> studentDashboard (step ''http://localhost:3001'' (StudentRefresh rejecting) (expired_session PathStudent))
        = initial_student\<lparr>error := ''Invalid token''\<rparr>"
proof -
  have v: "AppShell (sh (expired_session PathStudent)) = Return StudentDashboard"
    by (simp add: expired_session_def AppShell_def roles_of_def RequireAuth_def RequireRole_def)
  have t: "apiListMyApplications rejecting (Some ''http://localhost:3001'')
        (token (sh (expired_session PathStudent))) = Throw (Error ''Invalid token'')"
    by (simp add: apiListMyApplications_def request_def rejecting_def request_finish_def
          parseJsonOrText_def ok_def errorFromResponse_def)
  have d: "studentDashboard (expired_session PathStudent) = initial_student"
    by (simp add: expired_session_def)
  show ?thesis
    using student_refresh_failure [OF t] v t d
    by (simp add: message_or_def initial_student_def)
qed

subsection \<open>The lifecycle of the session token\<close>

text \<open>
  C5, as the specification states it, does not hold in its last part. On the home
  page, a refresh of the session that the backend rejects clears the token and the
  local storage entry, and the user stays on the home page: nothing returns them to
  login.
\<close>

theorem refresh_failure_on_home_stays:
  "truthy_val (token (sh (expired_session PathHome)))
   \<and> apiMe rejecting (Some ''http://localhost:3001'') (token (sh (expired_session PathHome)))
       = Throw (Error ''Invalid token'')
   \<and> token (sh (step ''http://localhost:3001'' (RefreshSession rejecting) (expired_session PathHome)))
       = Some (JStr [])
   \<and> sap_token (sh (step ''http://localhost:3001'' (RefreshSession rejecting) (expired_session PathHome)))
       = None
   \<and> pathname (sh (step ''http://localhost:3001'' (RefreshSession rejecting) (expired_session PathHome)))
       = PathHome
   \<and> AppShell (sh (step ''http://localhost:3001'' (RefreshSession rejecting) (expired_session PathHome)))
       = Return Home"
proof -
  have tr: "truthy_val (token (sh (expired_session PathHome)))"
    by (simp add: expired_session_def)
  have th: "apiMe rejecting (Some ''http://localhost:3001'') (token (sh (expired_session PathHome)))
              = Throw (Error ''Invalid token'')"
    by (simp add: apiMe_def request_def rejecting_def request_finish_def parseJsonOrText_def
          ok_def errorFromResponse_def)
  have p: "pathname (sh (expired_session PathHome)) = PathHome"
    by (simp add: expired_session_def)
  have v: "AppShell (sh (step ''http://localhost:3001'' (RefreshSession rejecting) (expired_session PathHome)))
             = Return Home"
    using refresh_failure_step(4) [OF tr th] p by simp
  have r: "refreshMe rejecting ''http://localhost:3001'' None (sh (expired_session PathHome))
             = (sh (expired_session PathHome))
                 \<lparr>me := JNull, token := Some (JStr []), sap_token := None, loadingMe := False\<rparr>"
    using tr th by (simp add: refreshMe_def refreshMe_run_cases(3))
  have "pathname (sh (step ''http://localhost:3001'' (RefreshSession rejecting) (expired_session PathHome)))
          = PathHome"
    by (simp add: step_sh r settle_def AppShell_def roles_of_def p)
  then show ?thesis
    using tr th v refresh_failure_step(1,2) [OF tr th] by simp
qed

text \<open>
  C5, amended. A step changes the token or the local storage entry only if it is a
  login or register whose call returned (a body with a readable \<^verbatim>\<open>access_token\<close>),
  a logout, or a refresh of the session with a truthy token in which \<^verbatim>\<open>apiMe\<close>
  throws. A login or register that returned a truthy token stores it in both places
  and then refreshes the current user: when \<^verbatim>\<open>apiMe\<close> returns, the token stays, the
  user is set and the location is \<^verbatim>\<open>/student\<close>; when \<^verbatim>\<open>apiMe\<close> throws, the token,
  the storage entry and the user are cleared and the login page is shown. A login or
  register by a visitor whose reply holds no truthy token stores that value (local
  storage gets its text) and shows the login page again. Logout clears both places
  and shows the login page. A refresh of the session in which \<^verbatim>\<open>apiMe\<close> throws
  clears both places and the user; it shows the login page when the location was
  \<^verbatim>\<open>/student\<close> or \<^verbatim>\<open>/admin\<close>, and leaves the user where they are on the home page
  and on an unmatched path. These are all the places a signed-in user can be: with a
  truthy token a shell that renders never settles on \<^verbatim>\<open>/login\<close> or \<^verbatim>\<open>/register\<close>.
\<close>

theorem session_token_lifecycle:
  "(token (sh (step b e a)) \<noteq> token (sh a) \<or> sap_token (sh (step b e a)) \<noteq> sap_token (sh a) \<longrightarrow>
      (case e of
         SubmitLogin f \<Rightarrow>
           (\<exists>data t. apiLogin f (Some b) (Some (JStr (email (loginPage a))))
                        (Some (JStr (password (loginPage a)))) = Return data
                      \<and> property_of data ''access_token'' = Return t)
       | SubmitRegister f \<Rightarrow>
           (\<exists>data t. apiRegister f (Some b) (Some (JStr (email (registerPage a))))
                        (Some (JStr (password (registerPage a))))
                        (Some (JStr (firstName (registerPage a))))
                        (Some (JStr (lastName (registerPage a)))) = Return data
                      \<and> property_of data ''access_token'' = Return t)
       | RefreshSession f \<Rightarrow>
           truthy_val (token (sh a)) \<and> (\<exists>err. apiMe f (Some b) (token (sh a)) = Throw err)
       | Logout \<Rightarrow> True
       | _ \<Rightarrow> False))
   \<and> (apiLogin g (Some b) (Some (JStr (email (loginPage a))))
         (Some (JStr (password (loginPage a)))) = Return data
       \<and> property_of data ''access_token'' = Return t \<and> truthy_val t
       \<and> apiMe g (Some b) t = Return u \<longrightarrow>
         token (sh (step b (SubmitLogin g) a)) = t
         \<and> sap_token (sh (step b (SubmitLogin g) a)) = Some (String_val t)
         \<and> me (sh (step b (SubmitLogin g) a)) = u
         \<and> pathname (sh (step b (SubmitLogin g) a)) = PathStudent)
   \<and> (apiRegister g (Some b) (Some (JStr (email (registerPage a))))
         (Some (JStr (password (registerPage a))))
         (Some (JStr (firstName (registerPage a))))
         (Some (JStr (lastName (registerPage a)))) = Return data
       \<and> property_of data ''access_token'' = Return t \<and> truthy_val t
       \<and> apiMe g (Some b) t = Return u \<longrightarrow>
         token (sh (step b (SubmitRegister g) a)) = t
         \<and> sap_token (sh (step b (SubmitRegister g) a)) = Some (String_val t)
         \<and> me (sh (step b (SubmitRegister g) a)) = u
         \<and> pathname (sh (step b (SubmitRegister g) a)) = PathStudent)
   \<and> (apiLogin g (Some b) (Some (JStr (email (loginPage a))))
         (Some (JStr (password (loginPage a)))) = Return data
       \<and> property_of data ''access_token'' = Return t \<and> truthy_val t
       \<and> apiMe g (Some b) t = Throw err \<longrightarrow>
         token (sh (step b (SubmitLogin g) a)) = Some (JStr [])
         \<and> sap_token (sh (step b (SubmitLogin g) a)) = None
         \<and> me (sh (step b (SubmitLogin g) a)) = JNull
         \<and> pathname (sh (step b (SubmitLogin g) a)) = PathLogin
         \<and> AppShell (sh (step b (SubmitLogin g) a)) = Return LoginPage)
   \<and> (apiRegister g (Some b) (Some (JStr (email (registerPage a))))
         (Some (JStr (password (registerPage a))))
         (Some (JStr (firstName (registerPage a))))
         (Some (JStr (lastName (registerPage a)))) = Return data
       \<and> property_of data ''access_token'' = Return t \<and> truthy_val t
       \<and> apiMe g (Some b) t = Throw err \<longrightarrow>
         token (sh (step b (SubmitRegister g) a)) = Some (JStr [])
         \<and> sap_token (sh (step b (SubmitRegister g) a)) = None
         \<and> me (sh (step b (SubmitRegister g) a)) = JNull
         \<and> pathname (sh (step b (SubmitRegister g) a)) = PathLogin
         \<and> AppShell (sh (step b (SubmitRegister g) a)) = Return LoginPage)
   \<and> (apiLogin g (Some b) (Some (JStr (email (loginPage a))))
         (Some (JStr (password (loginPage a)))) = Return data
       \<and> property_of data ''access_token'' = Return t \<and> \<not> truthy_val t
       \<and> \<not> truthy_val (token (sh a)) \<longrightarrow>
         token (sh (step b (SubmitLogin g) a)) = t
         \<and> sap_token (sh (step b (SubmitLogin g) a)) = Some (String_val t)
         \<and> me (sh (step b (SubmitLogin g) a)) = JNull
         \<and> pathname (sh (step b (SubmitLogin g) a)) = PathLogin
         \<and> AppShell (sh (step b (SubmitLogin g) a)) = Return LoginPage)
   \<and> (apiRegister g (Some b) (Some (JStr (email (registerPage a))))
         (Some (JStr (password (registerPage a))))
         (Some (JStr (firstName (registerPage a))))
         (Some (JStr (lastName (registerPage a)))) = Return data
       \<and> property_of data ''access_token'' = Return t \<and> \<not> truthy_val t
       \<and> \<not> truthy_val (token (sh a)) \<longrightarrow>
         token (sh (step b (SubmitRegister g) a)) = t
         \<and> sap_token (sh (step b (SubmitRegister g) a)) = Some (String_val t)
         \<and> me (sh (step b (SubmitRegister g) a)) = JNull
         \<and> pathname (sh (step b (SubmitRegister g) a)) = PathLogin
         \<and> AppShell (sh (step b (SubmitRegister g) a)) = Return LoginPage)
   \<and> token (sh (step b Logout a)) = Some (JStr [])
   \<and> sap_token (sh (step b Logout a)) = None
   \<and> pathname (sh (step b Logout a)) = PathLogin
   \<and> AppShell (sh (step b Logout a)) = Return LoginPage
   \<and> (truthy_val (token (sh a)) \<and> apiMe g (Some b) (token (sh a)) = Throw err \<longrightarrow>
         token (sh (step b (RefreshSession g) a)) = Some (JStr [])
         \<and> sap_token (sh (step b (RefreshSession g) a)) = None
         \<and> me (sh (step b (RefreshSession g) a)) = JNull
         \<and> (pathname (sh a) = PathStudent \<or> pathname (sh a) = PathAdmin \<longrightarrow>
               pathname (sh (step b (RefreshSession g) a)) = PathLogin
               \<and> AppShell (sh (step b (RefreshSession g) a)) = Return LoginPage)
         \<and> (pathname (sh a) = PathHome \<longrightarrow>
               pathname (sh (step b (RefreshSession g) a)) = PathHome
               \<and> AppShell (sh (step b (RefreshSession g) a)) = Return Home)
         \<and> (pathname (sh a) = PathOther \<longrightarrow>
               pathname (sh (step b (RefreshSession g) a)) = PathOther
               \<and> AppShell (sh (step b (RefreshSession g) a)) = Return NotFound))
   \<and> (truthy_val (token s) \<and> AppShell s = Return v \<longrightarrow>
         pathname (settle s) \<noteq> PathLogin \<and> pathname (settle s) \<noteq> PathRegister)"
proof (intro conjI impI)
  assume "token (sh (step b e a)) \<noteq> token (sh a) \<or> sap_token (sh (step b e a)) \<noteq> sap_token (sh a)"
  then have "token (sh (handle b e a)) \<noteq> token (sh a) \<or> sap_token (sh (handle b e a)) \<noteq> sap_token (sh a)"
    by (simp only: step_session)
  then show "case e of
         SubmitLogin f \<Rightarrow>
           (\<exists>data t. apiLogin f (Some b) (Some (JStr (email (loginPage a))))
                        (Some (JStr (password (loginPage a)))) = Return data
                      \<and> property_of data ''access_token'' = Return t)
       | SubmitRegister f \<Rightarrow>
           (\<exists>data t. apiRegister f (Some b) (Some (JStr (email (registerPage a))))
                        (Some (JStr (password (registerPage a))))
                        (Some (JStr (firstName (registerPage a))))
                        (Some (JStr (lastName (registerPage a)))) = Return data
                      \<and> property_of data ''access_token'' = Return t)
       | RefreshSession f \<Rightarrow>
           truthy_val (token (sh a)) \<and> (\<exists>err. apiMe f (Some b) (token (sh a)) = Throw err)
       | Logout \<Rightarrow> True
       | _ \<Rightarrow> False"
    by (rule handle_session_only)
next
  assume h: "apiLogin g (Some b) (Some (JStr (email (loginPage a))))
         (Some (JStr (password (loginPage a)))) = Return data
       \<and> property_of data ''access_token'' = Return t \<and> truthy_val t
       \<and> apiMe g (Some b) t = Return u"
  then have "sh (handle b (SubmitLogin g) a) = onAuthed g b t (sh a)"
    using login_handled [of g b a data t] by simp
  then have x: "sh (handle b (SubmitLogin g) a)
      = (sh a)\<lparr>token := t, sap_token := Some (String_val t), me := u, loadingMe := False,
                pathname := PathStudent\<rparr>"
    using h onAuthed_success [of t g b u "sh a"] by simp
  show "token (sh (step b (SubmitLogin g) a)) = t"
    "sap_token (sh (step b (SubmitLogin g) a)) = Some (String_val t)"
    "me (sh (step b (SubmitLogin g) a)) = u"
    "pathname (sh (step b (SubmitLogin g) a)) = PathStudent"
    using stays_signed_in [OF x] h by simp_all
next
  assume h: "apiRegister g (Some b) (Some (JStr (email (registerPage a))))
         (Some (JStr (password (registerPage a))))
         (Some (JStr (firstName (registerPage a))))
         (Some (JStr (lastName (registerPage a)))) = Return data
       \<and> property_of data ''access_token'' = Return t \<and> truthy_val t
       \<and> apiMe g (Some b) t = Return u"
  then have "sh (handle b (SubmitRegister g) a) = onAuthed g b t (sh a)"
    using register_handled [of g b a data t] by simp
  then have x: "sh (handle b (SubmitRegister g) a)
      = (sh a)\<lparr>token := t, sap_token := Some (String_val t), me := u, loadingMe := False,
                pathname := PathStudent\<rparr>"
    using h onAuthed_success [of t g b u "sh a"] by simp
  show "token (sh (step b (SubmitRegister g) a)) = t"
    "sap_token (sh (step b (SubmitRegister g) a)) = Some (String_val t)"
    "me (sh (step b (SubmitRegister g) a)) = u"
    "pathname (sh (step b (SubmitRegister g) a)) = PathStudent"
    using stays_signed_in [OF x] h by simp_all
next
  assume h: "apiLogin g (Some b) (Some (JStr (email (loginPage a))))
         (Some (JStr (password (loginPage a)))) = Return data
       \<and> property_of data ''access_token'' = Return t \<and> truthy_val t
       \<and> apiMe g (Some b) t = Throw err"
  then have "sh (handle b (SubmitLogin g) a) = onAuthed g b t (sh a)"
    using login_handled [of g b a data t] by simp
  then have x: "sh (handle b (SubmitLogin g) a)
      = (sh a)\<lparr>token := Some (JStr []), sap_token := None, me := JNull, loadingMe := False,
                pathname := PathStudent\<rparr>"
    using h onAuthed_failure [of t g b err "sh a"] by simp
  show "token (sh (step b (SubmitLogin g) a)) = Some (JStr [])"
    "sap_token (sh (step b (SubmitLogin g) a)) = None"
    "me (sh (step b (SubmitLogin g) a)) = JNull"
    "pathname (sh (step b (SubmitLogin g) a)) = PathLogin"
    "AppShell (sh (step b (SubmitLogin g) a)) = Return LoginPage"
    using ends_on_login [OF x] by simp_all
next
  assume h: "apiRegister g (Some b) (Some (JStr (email (registerPage a))))
         (Some (JStr (password (registerPage a))))
         (Some (JStr (firstName (registerPage a))))
         (Some (JStr (lastName (registerPage a)))) = Return data
       \<and> property_of data ''access_token'' = Return t \<and> truthy_val t
       \<and> apiMe g (Some b) t = Throw err"
  then have "sh (handle b (SubmitRegister g) a) = onAuthed g b t (sh a)"
    using register_handled [of g b a data t] by simp
  then have x: "sh (handle b (SubmitRegister g) a)
      = (sh a)\<lparr>token := Some (JStr []), sap_token := None, me := JNull, loadingMe := False,
                pathname := PathStudent\<rparr>"
    using h onAuthed_failure [of t g b err "sh a"] by simp
  show "token (sh (step b (SubmitRegister g) a)) = Some (JStr [])"
    "sap_token (sh (step b (SubmitRegister g) a)) = None"
    "me (sh (step b (SubmitRegister g) a)) = JNull"
    "pathname (sh (step b (SubmitRegister g) a)) = PathLogin"
    "AppShell (sh (step b (SubmitRegister g) a)) = Return LoginPage"
    using ends_on_login [OF x] by simp_all
next
  assume h: "apiLogin g (Some b) (Some (JStr (email (loginPage a))))
         (Some (JStr (password (loginPage a)))) = Return data
       \<and> property_of data ''access_token'' = Return t \<and> \<not> truthy_val t
       \<and> \<not> truthy_val (token (sh a))"
  then have "sh (handle b (SubmitLogin g) a) = onAuthed g b t (sh a)"
    using login_handled [of g b a data t] by simp
  then have x: "sh (handle b (SubmitLogin g) a)
      = (sh a)\<lparr>token := t, sap_token := Some (String_val t), me := JNull, pathname := PathStudent\<rparr>"
    using h onAuthed_falsy [of t "sh a" g b] by simp
  show "token (sh (step b (SubmitLogin g) a)) = t"
    "sap_token (sh (step b (SubmitLogin g) a)) = Some (String_val t)"
    "me (sh (step b (SubmitLogin g) a)) = JNull"
    "pathname (sh (step b (SubmitLogin g) a)) = PathLogin"
    "AppShell (sh (step b (SubmitLogin g) a)) = Return LoginPage"
    using ends_on_login [OF x] h by simp_all
next
  assume h: "apiRegister g (Some b) (Some (JStr (email (registerPage a))))
         (Some (JStr (password (registerPage a))))
         (Some (JStr (firstName (registerPage a))))
         (Some (JStr (lastName (registerPage a)))) = Return data
       \<and> property_of data ''access_token'' = Return t \<and> \<not> truthy_val t
       \<and> \<not> truthy_val (token (sh a))"
  then have "sh (handle b (SubmitRegister g) a) = onAuthed g b t (sh a)"
    using register_handled [of g b a data t] by simp
  then have x: "sh (handle b (SubmitRegister g) a)
      = (sh a)\<lparr>token := t, sap_token := Some (String_val t), me := JNull, pathname := PathStudent\<rparr>"
    using h onAuthed_falsy [of t "sh a" g b] by simp
  show "token (sh (step b (SubmitRegister g) a)) = t"
    "sap_token (sh (step b (SubmitRegister g) a)) = Some (String_val t)"
    "me (sh (step b (SubmitRegister g) a)) = JNull"
    "pathname (sh (step b (SubmitRegister g) a)) = PathLogin"
    "AppShell (sh (step b (SubmitRegister g) a)) = Return LoginPage"
    using ends_on_login [OF x] h by simp_all
next
  assume h: "truthy_val (token (sh a)) \<and> apiMe g (Some b) (token (sh a)) = Throw err"
  then have r: "truthy_val (token (sh a))" "apiMe g (Some b) (token (sh a)) = Throw err"
    by simp_all
  show "token (sh (step b (RefreshSession g) a)) = Some (JStr [])"
    "sap_token (sh (step b (RefreshSession g) a)) = None"
    "me (sh (step b (RefreshSession g) a)) = JNull"
    by (simp_all only: refresh_failure_step [OF r])
  {
    assume "pathname (sh a) = PathStudent \<or> pathname (sh a) = PathAdmin"
    then show "pathname (sh (step b (RefreshSession g) a)) = PathLogin"
      "AppShell (sh (step b (RefreshSession g) a)) = Return LoginPage"
      using refresh_failure_routes [OF r] refresh_failure_step(4) [OF r] by auto
  }
  {
    assume "pathname (sh a) = PathHome"
    then show "pathname (sh (step b (RefreshSession g) a)) = PathHome"
      "AppShell (sh (step b (RefreshSession g) a)) = Return Home"
      using refresh_failure_routes [OF r] refresh_failure_step(4) [OF r] by auto
  }
  {
    assume "pathname (sh a) = PathOther"
    then show "pathname (sh (step b (RefreshSession g) a)) = PathOther"
      "AppShell (sh (step b (RefreshSession g) a)) = Return NotFound"
      using refresh_failure_routes [OF r] refresh_failure_step(4) [OF r] by auto
  }
next
  assume "truthy_val (token s) \<and> AppShell s = Return v"
  then show "pathname (settle s) \<noteq> PathLogin" "pathname (settle s) \<noteq> PathRegister"
    using signed_in_settled [of s v] by simp_all
qed (simp_all add: logout_step logout_path)

theorem session_token_lifecycle_witness:
  "token (sh (step ''http://localhost:3001'' (SubmitLogin accepting) visitor)) = Some (JStr ''abc'')
   \<and> sap_token (sh (step ''http://localhost:3001'' (SubmitLogin accepting) visitor)) = Some ''abc''
   \<and> me (sh (step ''http://localhost:3001'' (SubmitLogin accepting) visitor)) = user_record
   \<and> pathname (sh (step ''http://localhost:3001'' (SubmitRegister accepting) visitor)) = PathStudent
   \<and> token (sh (step ''http://localhost:3001'' (SubmitLogin signin_only) visitor)) = Some (JStr [])
   \<and> sap_token (sh (step ''http://localhost:3001'' (SubmitLogin signin_only) visitor)) = None
   \<and> AppShell (sh (step ''http://localhost:3001'' (SubmitLogin signin_only) visitor)) = Return LoginPage
   \<and> pathname (sh (step ''http://localhost:3001'' (SubmitRegister signin_only) visitor)) = PathLogin
   \<and> token (sh (step ''http://localhost:3001'' (SubmitLogin tokenless) visitor)) = None
   \<and> sap_token (sh (step ''http://localhost:3001'' (SubmitLogin tokenless) visitor)) = Some ''undefined''
   \<and> AppShell (sh (step ''http://localhost:3001'' (SubmitRegister tokenless) visitor)) = Return LoginPage
   \<and> token (sh (step ''http://localhost:3001'' (RefreshSession rejecting) (expired_session PathStudent))) = Some (JStr [])
   \<and> sap_token (sh (step ''http://localhost:3001'' (RefreshSession rejecting) (expired_session PathStudent))) = None
   \<and> AppShell (sh (step ''http://localhost:3001'' (RefreshSession rejecting) (expired_session PathStudent))) = Return LoginPage
   \<and> AppShell (sh (step ''http://localhost:3001'' (RefreshSession rejecting) (expired_session PathOther))) = Return NotFound
   \<and> token (sh (step ''http://localhost:3001'' (RefreshSession rejecting) (expired_session PathStudent)))
       \<noteq> token (sh (expired_session PathStudent))
   \<and> pathname (settle (sh (expired_session PathLogin))) = PathStudent"
proof -
  have tr: "truthy_val (token (sh (expired_session r)))" for r
    by (simp add: expired_session_def)
  have th: "apiMe rejecting (Some ''http://localhost:3001'') (token (sh (expired_session r))) = Throw (Error ''Invalid token'')" for r
    by (simp add: apiMe_def request_def rejecting_def request_finish_def parseJsonOrText_def
          ok_def errorFromResponse_def)
  have p: "pathname (sh (expired_session r)) = r"
    "token (sh (expired_session r)) = Some (JStr ''expired'')" for r
    by (simp_all add: expired_session_def)
  have at: "property_of token_response ''access_token'' = Return (Some (JStr ''abc''))"
    by (simp add: token_response_def)
  have nt: "property_of (JObj []) ''access_token'' = Return None" by simp
  have vis: "\<not> truthy_val (token (sh visitor))"
    by (simp add: visitor_def initial_shell_def)
  note acc = session_token_lifecycle
             [where b = "''http://localhost:3001''" and a = visitor and g = accepting and data = token_response
                and t = "Some (JStr ''abc'')" and u = user_record]
  note bad = session_token_lifecycle
             [where b = "''http://localhost:3001''" and a = visitor and g = signin_only and data = token_response
                and t = "Some (JStr ''abc'')" and err = "Error ''Invalid token''"]
  note none = session_token_lifecycle
             [where b = "''http://localhost:3001''" and a = visitor and g = tokenless and data = "JObj []" and t = None]
  note ref = session_token_lifecycle
             [where b = "''http://localhost:3001''" and a = "expired_session PathStudent" and g = rejecting
                and err = "Error ''Invalid token''"]
  note oth = session_token_lifecycle
             [where b = "''http://localhost:3001''" and a = "expired_session PathOther" and g = rejecting
                and err = "Error ''Invalid token''"]
  have a: "token (sh (step ''http://localhost:3001'' (SubmitLogin accepting) visitor)) = Some (JStr ''abc'')
         \<and> sap_token (sh (step ''http://localhost:3001'' (SubmitLogin accepting) visitor)) = Some ''abc''
         \<and> me (sh (step ''http://localhost:3001'' (SubmitLogin accepting) visitor)) = user_record
         \<and> pathname (sh (step ''http://localhost:3001'' (SubmitRegister accepting) visitor)) = PathStudent"
    using acc accepting_login accepting_register accepting_me at by simp
  have b: "token (sh (step ''http://localhost:3001'' (SubmitLogin signin_only) visitor)) = Some (JStr [])
         \<and> sap_token (sh (step ''http://localhost:3001'' (SubmitLogin signin_only) visitor)) = None
         \<and> AppShell (sh (step ''http://localhost:3001'' (SubmitLogin signin_only) visitor)) = Return LoginPage
         \<and> pathname (sh (step ''http://localhost:3001'' (SubmitRegister signin_only) visitor)) = PathLogin"
    using bad signin_only_login signin_only_me at by simp
  have c: "token (sh (step ''http://localhost:3001'' (SubmitLogin tokenless) visitor)) = None
         \<and> sap_token (sh (step ''http://localhost:3001'' (SubmitLogin tokenless) visitor)) = Some ''undefined''
         \<and> AppShell (sh (step ''http://localhost:3001'' (SubmitRegister tokenless) visitor)) = Return LoginPage"
    using none tokenless_login nt vis by simp
  have d: "token (sh (step ''http://localhost:3001'' (RefreshSession rejecting) (expired_session PathStudent))) = Some (JStr [])
         \<and> sap_token (sh (step ''http://localhost:3001'' (RefreshSession rejecting) (expired_session PathStudent))) = None
         \<and> AppShell (sh (step ''http://localhost:3001'' (RefreshSession rejecting) (expired_session PathStudent)))
             = Return LoginPage"
    using ref tr th p by simp
  have e: "AppShell (sh (step ''http://localhost:3001'' (RefreshSession rejecting) (expired_session PathOther)))
             = Return NotFound"
    using oth tr th p by simp
  have v: "AppShell (sh (expired_session PathLogin)) = Return (Navigate PathStudent)"
    by (simp add: expired_session_def AppShell_def roles_of_def)
  have f: "pathname (settle (sh (expired_session PathLogin))) = PathStudent"
    using v by (simp add: settle_def)
  show ?thesis using a b c d e f p by simp
qed

subsection \<open>The stored token on later requests\<close>

text \<open>
  C2. A login or a register that returns a body whose \<^verbatim>\<open>access_token\<close> is a non-empty
  string \<open>t\<close>, followed by a successful \<^verbatim>\<open>apiMe\<close>, leaves \<open>t\<close> as the token of the
  state and in local storage. Every operation that passes \<open>t\<close> as its token sends
  the header \<^verbatim>\<open>Authorization: Bearer t\<close>, and an operation that passes no token (or
  a falsy one) sends no Authorization header. While the token is not empty the login
  and register pages are not shown, and the handlers of the session refresh and of
  both dashboards consult the network only through requests that carry that header:
  two networks that agree on every such request give the same step.
\<close>

theorem stored_token_sent_as_bearer:
  "(apiLogin f (Some b) (Some (JStr (email (loginPage a))))
         (Some (JStr (password (loginPage a)))) = Return data
       \<and> get_prop data ''access_token'' = Some (JStr t) \<and> t \<noteq> []
       \<and> apiMe f (Some b) (Some (JStr t)) = Return u \<longrightarrow>
         token (sh (step b (SubmitLogin f) a)) = Some (JStr t)
         \<and> sap_token (sh (step b (SubmitLogin f) a)) = Some t)
   \<and> (apiRegister f (Some b) (Some (JStr (email (registerPage a))))
         (Some (JStr (password (registerPage a))))
         (Some (JStr (firstName (registerPage a))))
         (Some (JStr (lastName (registerPage a)))) = Return data
       \<and> get_prop data ''access_token'' = Some (JStr t) \<and> t \<noteq> []
       \<and> apiMe f (Some b) (Some (JStr t)) = Return u \<longrightarrow>
         token (sh (step b (SubmitRegister f) a)) = Some (JStr t)
         \<and> sap_token (sh (step b (SubmitRegister f) a)) = Some t)
   \<and> (t \<noteq> [] \<and> call_token c = Some (JStr t) \<longrightarrow>
         map_of (headers (sent base c)) ''Authorization'' = Some (''Bearer '' @ t))
   \<and> (\<not> truthy_val (call_token c) \<longrightarrow> map_of (headers (sent base c)) ''Authorization'' = None)
   \<and> (truthy_val (token s) \<longrightarrow> AppShell s \<noteq> Return LoginPage \<and> AppShell s \<noteq> Return RegisterPage)
   \<and> (t \<noteq> [] \<and> token (sh a) = Some (JStr t)
       \<and> (\<forall>i. map_of (headers i) ''Authorization'' = Some (''Bearer '' @ t) \<longrightarrow> g i = h i) \<longrightarrow>
         step b (RefreshSession g) a = step b (RefreshSession h) a
         \<and> step b (StudentRefresh g) a = step b (StudentRefresh h) a
         \<and> step b (CreateDraft g) a = step b (CreateDraft h) a
         \<and> step b (SubmitApp i g) a = step b (SubmitApp i h) a
         \<and> step b (WithdrawApp i g) a = step b (WithdrawApp i h) a
         \<and> step b (AdminRefresh g) a = step b (AdminRefresh h) a
         \<and> step b (ChangeStatus i to g) a = step b (ChangeStatus i to h) a)"
proof (intro conjI impI)
  assume "t \<noteq> [] \<and> token (sh a) = Some (JStr t)
       \<and> (\<forall>i. map_of (headers i) ''Authorization'' = Some (''Bearer '' @ t) \<longrightarrow> g i = h i)"
  then have t: "t \<noteq> []" and k: "token (sh a) = Some (JStr t)"
    and c: "\<forall>i. map_of (headers i) ''Authorization'' = Some (''Bearer '' @ t) \<longrightarrow> g i = h i"
    by simp_all
  note hc = handlers_bearer_cong [OF t c]
  show "step b (RefreshSession g) a = step b (RefreshSession h) a"
    by (simp add: step_def refreshMe_def k hc)
  show "step b (StudentRefresh g) a = step b (StudentRefresh h) a"
    by (simp add: step_def k hc)
  show "step b (CreateDraft g) a = step b (CreateDraft h) a"
    by (simp add: step_def k hc)
  show "step b (SubmitApp i g) a = step b (SubmitApp i h) a"
    by (simp add: step_def k hc)
  show "step b (WithdrawApp i g) a = step b (WithdrawApp i h) a"
    by (simp add: step_def k hc)
  show "step b (AdminRefresh g) a = step b (AdminRefresh h) a"
    by (simp add: step_def k hc)
  show "step b (ChangeStatus i to g) a = step b (ChangeStatus i to h) a"
    by (simp add: step_def k hc)
next
  assume "apiLogin f (Some b) (Some (JStr (email (loginPage a))))
         (Some (JStr (password (loginPage a)))) = Return data
       \<and> get_prop data ''access_token'' = Some (JStr t) \<and> t \<noteq> []
       \<and> apiMe f (Some b) (Some (JStr t)) = Return u"
  then show "token (sh (step b (SubmitLogin f) a)) = Some (JStr t)"
    "sap_token (sh (step b (SubmitLogin f) a)) = Some t"
    using login_success_step [of f b a data "Some (JStr t)" u] access_token_read [of data "JStr t"]
    by simp_all
next
  assume "apiRegister f (Some b) (Some (JStr (email (registerPage a))))
         (Some (JStr (password (registerPage a))))
         (Some (JStr (firstName (registerPage a))))
         (Some (JStr (lastName (registerPage a)))) = Return data
       \<and> get_prop data ''access_token'' = Some (JStr t) \<and> t \<noteq> []
       \<and> apiMe f (Some b) (Some (JStr t)) = Return u"
  then show "token (sh (step b (SubmitRegister f) a)) = Some (JStr t)"
    "sap_token (sh (step b (SubmitRegister f) a)) = Some t"
    using register_success_step [of f b a data "Some (JStr t)" u] access_token_read [of data "JStr t"]
    by simp_all
qed (simp_all add: sent_authorization signed_in_hides_forms)

theorem stored_token_sent_as_bearer_witness:
  "token (sh (step ''http://localhost:3001'' (SubmitLogin accepting) visitor)) = Some (JStr ''abc'')
   \<and> sap_token (sh (step ''http://localhost:3001'' (SubmitLogin accepting) visitor)) = Some ''abc''
   \<and> map_of (headers (sent (Some ''http://localhost:3001'')
         (ListMyApplications (token (sh (step ''http://localhost:3001'' (SubmitLogin accepting) visitor))))))
        ''Authorization'' = Some ''Bearer abc''
   \<and> map_of (headers (sent (Some ''http://localhost:3001'')
         (Login (Some (JStr ''student1@example.com'')) (Some (JStr ''password123'')))))
        ''Authorization'' = None
   \<and> AppShell (sh (step ''http://localhost:3001'' (SubmitLogin accepting) visitor)) \<noteq> Return LoginPage
   \<and> step ''http://localhost:3001'' (StudentRefresh accepting)
         (step ''http://localhost:3001'' (SubmitLogin accepting) visitor)
       = step ''http://localhost:3001''
           (StudentRefresh (\<lambda>i. if map_of (headers i) ''Authorization'' = Some ''Bearer abc''
                                  then accepting i else rejecting i))
           (step ''http://localhost:3001'' (SubmitLogin accepting) visitor)"
proof -
  let ?B = "''http://localhost:3001''"
  let ?a = "step ?B (SubmitLogin accepting) visitor"
  let ?h = "\<lambda>i. if map_of (headers i) ''Authorization'' = Some ''Bearer abc''
                then accepting i else rejecting i"
  have at: "get_prop token_response ''access_token'' = Some (JStr ''abc'')"
    by (simp add: token_response_def)
  have ne: "''abc'' \<noteq> []" by simp
  have k: "token (sh ?a) = Some (JStr ''abc'') \<and> sap_token (sh ?a) = Some ''abc''"
    using stored_token_sent_as_bearer
            [where f = accepting and b = ?B and a = visitor and data = token_response
               and t = "''abc''" and u = user_record]
          accepting_login accepting_me at
    by simp
  have c1: "map_of (headers (sent (Some ?B) (ListMyApplications (Some (JStr ''abc''))))) ''Authorization''
              = Some ''Bearer abc''"
    using stored_token_sent_as_bearer
            [where t = "''abc''" and c = "ListMyApplications (Some (JStr ''abc''))" and base = "Some ?B"]
    by simp
  have c2: "map_of (headers (sent (Some ?B)
               (Login (Some (JStr ''student1@example.com'')) (Some (JStr ''password123'')))))
              ''Authorization'' = None"
    using stored_token_sent_as_bearer
            [where c = "Login (Some (JStr ''student1@example.com'')) (Some (JStr ''password123''))"
               and base = "Some ?B"]
    by simp
  have c3: "AppShell (sh ?a) \<noteq> Return LoginPage"
    using stored_token_sent_as_bearer [where s = "sh ?a"] k by simp
  have c4: "step ?B (StudentRefresh accepting) ?a = step ?B (StudentRefresh ?h) ?a"
    using stored_token_sent_as_bearer
            [where t = "''abc''" and a = ?a and g = accepting and h = ?h and b = ?B] k
    by simp
  show ?thesis using k c1 c2 c3 c4 by simp
qed

end
